theory Spec2Isabelle
  imports Main "HOL-Library.Sublist"
begin

section \<open>Python values and the string operations the backends use\<close>

text \<open>
  Job keys, call ids and memory sizes reach the backends as Python strings or integers.
  \<open>py_str\<close> is Python's \<open>str()\<close> on them: the identity on a string, the decimal
  numeral (with a leading minus sign when negative) on an integer.
\<close>

datatype pyval = PyStr string | PyInt int

definition digit_char :: "nat \<Rightarrow> char" where
  "digit_char d = ''0123456789'' ! d"

fun str_nat :: "nat \<Rightarrow> string" where
  "str_nat n = (if n < 10 then [digit_char n] else str_nat (n div 10) @ [digit_char (n mod 10)])"

declare str_nat.simps [simp del]

definition str_int :: "int \<Rightarrow> string" where
  "str_int i = (if i < 0 then CHR ''-'' # str_nat (nat (- i)) else str_nat (nat i))"

fun py_str :: "pyval \<Rightarrow> string" where
  "py_str (PyStr s) = s"
| "py_str (PyInt i) = str_int i"

text \<open>
  \<open>str.replace(old, new, count)\<close>: the non-overlapping occurrences of \<open>old\<close> are
  replaced from the left, at most \<open>count\<close> of them; a negative \<open>count\<close> (Python's
  default is \<open>-1\<close>) replaces all. With an empty \<open>old\<close> Python inserts \<open>new\<close> before
  every character and at the end.
\<close>

fun replace_empty :: "string \<Rightarrow> int \<Rightarrow> string \<Rightarrow> string" where
  "replace_empty new cnt [] = (if cnt = 0 then [] else new)"
| "replace_empty new cnt (c # cs) =
     (if cnt = 0 then c # cs else new @ c # replace_empty new (cnt - 1) cs)"

function replace_nonempty :: "string \<Rightarrow> string \<Rightarrow> int \<Rightarrow> string \<Rightarrow> string" where
  "replace_nonempty old new cnt [] = []"
| "replace_nonempty old new cnt (c # cs) =
     (if cnt = 0 \<or> old = [] then c # cs
      else if take (length old) (c # cs) = old
           then new @ replace_nonempty old new (cnt - 1) (drop (length old) (c # cs))
           else c # replace_nonempty old new cnt cs)"
  by pat_completeness auto
termination
  by (relation "measure (\<lambda>(old, new, cnt, s). length s)") auto

definition replace_py :: "string \<Rightarrow> string \<Rightarrow> int \<Rightarrow> string \<Rightarrow> string" where
  "replace_py old new cnt s =
     (if old = [] then replace_empty new cnt s else replace_nonempty old new cnt s)"

text \<open>
  \<open>split_first sep s\<close> cuts \<open>s\<close> at the leftmost occurrence of \<open>sep\<close>.
  \<open>str.rsplit(sep, 1)\<close> cuts at the rightmost occurrence, which is the leftmost one of
  the reversed separator in the reversed string; it returns the whole string alone when
  there is no occurrence, and raises \<open>ValueError\<close> on an empty separator.
\<close>

fun split_first :: "string \<Rightarrow> string \<Rightarrow> (string \<times> string) option" where
  "split_first sep [] = (if sep = [] then Some ([], []) else None)"
| "split_first sep (c # cs) =
     (if take (length sep) (c # cs) = sep then Some ([], drop (length sep) (c # cs))
      else case split_first sep cs of
             None \<Rightarrow> None
           | Some (a, b) \<Rightarrow> Some (c # a, b))"

datatype py_error = ValueError | KeyError string

definition rsplit1 :: "string \<Rightarrow> string \<Rightarrow> py_error + string list" where
  "rsplit1 sep s =
     (if sep = [] then Inl ValueError
      else case split_first (rev sep) (rev s) of
             None \<Rightarrow> Inr [s]
           | Some (a, b) \<Rightarrow> Inr [rev b, rev a])"

text \<open>
  \<open>int(s)\<close> on a string: an optional sign followed by at least one decimal digit gives
  the number, anything else raises \<open>ValueError\<close>. (Python also accepts surrounding
  white space and single underscores between digits; the strings read here are the
  tails of service names, which carry neither.)
\<close>

fun index_of :: "char \<Rightarrow> string \<Rightarrow> nat option" where
  "index_of c [] = None"
| "index_of c (x # xs) = (if c = x then Some 0 else map_option Suc (index_of c xs))"

definition digit_val :: "char \<Rightarrow> nat option" where
  "digit_val c = index_of c ''0123456789''"

fun digits_val :: "nat \<Rightarrow> string \<Rightarrow> nat option" where
  "digits_val acc [] = Some acc"
| "digits_val acc (c # cs) =
     (case digit_val c of None \<Rightarrow> None | Some d \<Rightarrow> digits_val (10 * acc + d) cs)"

definition py_int :: "string \<Rightarrow> py_error + int" where
  "py_int s =
     (let (neg, ds) = (case s of
                         c # cs \<Rightarrow> if c = CHR ''-'' then (True, cs)
                                   else if c = CHR ''+'' then (False, cs) else (False, s)
                       | [] \<Rightarrow> (False, s))
      in if ds = [] then Inl ValueError
         else case digits_val 0 ds of
                None \<Rightarrow> Inl ValueError
              | Some n \<Rightarrow> Inr (if neg then - int n else int n))"

section \<open>Cloud Run: service names\<close>

text \<open>
  \<open>GCPCloudRunBackend._format_service_name\<close> and \<open>_unformat_service_name\<close>.
  The package version string \<open>__version__\<close> is defined outside the two source files and
  is a parameter here. The unpacking \<open>runtime_name, memory = ...\<close> raises
  \<open>ValueError\<close> unless \<open>rsplit\<close> returned exactly two parts.
\<close>

definition format_service_name :: "string \<Rightarrow> string \<Rightarrow> int \<Rightarrow> string" where
  "format_service_name version runtime_name runtime_memory =
     ''lithops--'' @ replace_py ''.'' ''-'' (- 1) version @ ''--''
       @ replace_py ''.'' '''' (- 1) runtime_name @ ''--''
       @ str_int runtime_memory @ ''mb''"

definition unformat_service_name :: "string \<Rightarrow> py_error + (string \<times> int)" where
  "unformat_service_name service_name =
     (case rsplit1 ''--'' service_name of
        Inl e \<Rightarrow> Inl e
      | Inr [runtime_name, memory] \<Rightarrow>
          (let image_name = replace_py ''--'' ''/'' 1 runtime_name;
               image_name = replace_py ''--'' '':'' (- 1) image_name
           in case py_int (replace_py ''mb'' '''' (- 1) memory) of
                Inl e \<Rightarrow> Inl e
              | Inr m \<Rightarrow> Inr (image_name, m))
      | Inr _ \<Rightarrow> Inl ValueError)"

section \<open>IBM VPC: resource names\<close>

text \<open>
  \<open>IBMVPCInstanceClient._generate_name\<close>. \<open>namegenerator.gen()\<close> is an external random
  source: \<open>gen\<close> is the sequence of the strings it returns and \<open>k\<close> the number of
  draws made so far; the function returns the name and the new number of draws.
\<close>

definition generate_name ::
  "(nat \<Rightarrow> string) \<Rightarrow> nat \<Rightarrow> string \<Rightarrow> pyval option \<Rightarrow> pyval option \<Rightarrow> string \<times> nat" where
  "generate_name gen k r_type job_key call_id =
     (case (job_key, call_id) of
        (Some j, Some c) \<Rightarrow> (''lithops'' @ py_str j @ ''-'' @ py_str c @ ''-'' @ r_type, k)
      | _ \<Rightarrow> (''lithops-'' @ gen k @ ''-'' @ r_type, Suc k))"

section \<open>Cloud Run: the backend object and its environment\<close>

text \<open>
  JSON documents, as \<open>res.json()\<close> returns them and as \<open>invoke\<close> hands them back;
  \<open>JNull\<close> is Python's \<open>None\<close>.
\<close>

datatype json = JNull | JBool bool | JInt int | JStr string | JList "json list"
  | JDict "(string \<times> json) list"

text \<open>Python truthiness of a value (\<open>not runtime_meta\<close>).\<close>

fun truthy :: "json \<Rightarrow> bool" where
  "truthy JNull = False"
| "truthy (JBool b) = b"
| "truthy (JInt i) = (i \<noteq> 0)"
| "truthy (JStr s) = (s \<noteq> [])"
| "truthy (JList xs) = (xs \<noteq> [])"
| "truthy (JDict kvs) = (kvs \<noteq> [])"

text \<open>\<open>sub in s\<close> on strings.\<close>

fun contains_sub :: "string \<Rightarrow> string \<Rightarrow> bool" where
  "contains_sub sub [] = (sub = [])"
| "contains_sub sub (c # cs) = (take (length sub) (c # cs) = sub \<or> contains_sub sub cs)"

text \<open>
  The service resource as far as the backend reads it: the \<open>status\<close> strings of
  \<open>res['status']['conditions']\<close> and \<open>res['status']['url']\<close>.
\<close>

record service =
  conditions :: "string list"
  url :: string

text \<open>
  The exceptions of the Cloud Run backend. \<open>External\<close> is an exception raised inside a
  library call (the Google API client, the credentials loader, the HTTP session);
  \<open>BuildFailed\<close> is one raised while the default image is built; the other constructors
  are the exceptions the source raises itself, or that Python raises for the source's
  own expressions.
\<close>

datatype cr_exn =
    External string
  | TypeError
  | KeyError_activationId
  | JSONDecodeError
  | ZeroDivisionError
  | MaximumRetriesReached service
  | UnableToExtract cr_exn
  | FailedGettingRuntimeMetadata json
  | BuildFailed string

text \<open>
  \<open>key in v\<close> for a string key: key membership on a dict, element membership on a
  list, substring test on a string, \<open>TypeError\<close> on the values that are not iterable.
\<close>

fun py_in :: "string \<Rightarrow> json \<Rightarrow> cr_exn + bool" where
  "py_in k (JDict kvs) = Inr (k \<in> set (map fst kvs))"
| "py_in k (JList xs) = Inr (JStr k \<in> set xs)"
| "py_in k (JStr s) = Inr (contains_sub k s)"
| "py_in k v = Inl TypeError"

text \<open>\<open>data["activationId"]\<close>.\<close>

fun activation_id :: "json \<Rightarrow> cr_exn + json" where
  "activation_id (JDict kvs) =
     (case map_of kvs ''activationId'' of None \<Rightarrow> Inl KeyError_activationId | Some v \<Rightarrow> Inr v)"
| "activation_id v = Inl TypeError"

text \<open>
  The invocation payload: the keys \<open>invoke\<close> reads, and the rest of the document.
  An \<open>AuthorizedSession\<close> is identified by the audience its identity token was issued for.
\<close>

record payload =
  pl_executor_id :: "string option"
  pl_job_id :: "string option"
  pl_call_id :: "string option"
  service_route :: "string option"
  content :: "(string \<times> json) list"

record session =
  target_audience :: string

record http_response =
  status_code :: int
  json_data :: "json option"

text \<open>The calls that leave the process, in the order they are issued.\<close>

datatype cr_call =
    BuildApiResource
  | ApiCreateService string string
  | ApiGetService string
  | LoadIdTokenCredentials string
  | HttpPost string
  | Sleep nat
  | BuildDefaultRuntime

text \<open>
  The configuration read in \<open>__init__\<close> and the two module constants that are defined
  outside the source files (\<open>__version__\<close> and \<open>cr_config.DEFAULT_RUNTIME_NAME\<close>).
\<close>

record cr_config =
  project_name :: string
  credentials_path :: string
  version :: string
  default_runtime_name :: string

text \<open>
  The environment answers every external call. Building the admin API session, loading
  identity-token credentials and building the default image either succeed or raise;
  the \<open>n\<close>-th \<open>get\<close> of a service (counted from 0 over the life of the backend object)
  returns the service resource or raises; a \<open>post\<close> returns a response or raises.
\<close>

record cr_env =
  build_api :: "string option"
  create_service :: "string \<Rightarrow> string \<Rightarrow> string option"
  get_service :: "nat \<Rightarrow> string \<Rightarrow> string + service"
  load_id_credentials :: "string \<Rightarrow> string option"
  http_post :: "session \<Rightarrow> string \<Rightarrow> payload \<Rightarrow> string + http_response"
  build_default :: "string option"

text \<open>
  The mutable attributes of \<open>GCPCloudRunBackend\<close>, with two ghost fields: the number of
  service \<open>get\<close>s made and the external calls issued so far (oldest first).
\<close>

record cr_state =
  api_resource :: bool
  invoker_sess :: "session option"
  invoker_sess_route :: string
  service_url :: "string option"
  gets :: nat
  calls :: "cr_call list"

definition init_state :: cr_state where
  "init_state = \<lparr>api_resource = False, invoker_sess = None, invoker_sess_route = ''/'',
                 service_url = None, gets = 0, calls = []\<rparr>"

definition emit :: "cr_call \<Rightarrow> cr_state \<Rightarrow> cr_state" where
  "emit c st = st\<lparr>calls := calls st @ [c]\<rparr>"

definition build_api_resource :: "cr_env \<Rightarrow> cr_state \<Rightarrow> (cr_exn + unit) \<times> cr_state" where
  "build_api_resource env st =
     (if api_resource st then (Inr (), st)
      else case build_api env of
             Some e \<Rightarrow> (Inl (External e), emit BuildApiResource st)
           | None \<Rightarrow> (Inr (), (emit BuildApiResource st)\<lparr>api_resource := True\<rparr>))"

definition service_path :: "cr_config \<Rightarrow> string \<Rightarrow> int \<Rightarrow> string" where
  "service_path cfg runtime_name memory =
     ''namespaces/'' @ project_name cfg @ ''/services/''
       @ format_service_name (version cfg) runtime_name memory"

text \<open>One \<open>services().get(name=...).execute()\<close> through the admin API session.\<close>

definition api_get_service ::
  "cr_env \<Rightarrow> cr_config \<Rightarrow> string \<Rightarrow> int \<Rightarrow> cr_state \<Rightarrow> (cr_exn + service) \<times> cr_state" where
  "api_get_service env cfg runtime_name memory st =
     (case build_api_resource env st of
        (Inl e, st1) \<Rightarrow> (Inl e, st1)
      | (Inr _, st1) \<Rightarrow>
          (let name = service_path cfg runtime_name memory;
               st2 = (emit (ApiGetService name) st1)\<lparr>gets := Suc (gets st1)\<rparr>
           in case get_service env (gets st1) name of
                Inl e \<Rightarrow> (Inl (External e), st2)
              | Inr res \<Rightarrow> (Inr res, st2)))"

definition get_service_endpoint ::
  "cr_env \<Rightarrow> cr_config \<Rightarrow> string \<Rightarrow> int \<Rightarrow> cr_state \<Rightarrow> (cr_exn + string) \<times> cr_state" where
  "get_service_endpoint env cfg runtime_name memory st =
     (case service_url st of
        Some u \<Rightarrow> (Inr u, st)
      | None \<Rightarrow>
          (case api_get_service env cfg runtime_name memory st of
             (Inl e, st1) \<Rightarrow> (Inl e, st1)
           | (Inr res, st1) \<Rightarrow> (Inr (url res), st1\<lparr>service_url := Some (url res)\<rparr>)))"

definition build_invoker_sess ::
  "cr_env \<Rightarrow> cr_config \<Rightarrow> string \<Rightarrow> int \<Rightarrow> string \<Rightarrow> cr_state
     \<Rightarrow> (cr_exn + session) \<times> cr_state" where
  "build_invoker_sess env cfg runtime_name memory route st =
     (case (if route \<noteq> invoker_sess_route st then None else invoker_sess st) of
        Some sess \<Rightarrow> (Inr sess, st)
      | None \<Rightarrow>
          (case get_service_endpoint env cfg runtime_name memory st of
             (Inl e, st1) \<Rightarrow> (Inl e, st1)
           | (Inr u, st1) \<Rightarrow>
               (let target = u @ route;
                    st2 = emit (LoadIdTokenCredentials target) st1
                in case load_id_credentials env target of
                     Some e \<Rightarrow> (Inl (External e), st2)
                   | None \<Rightarrow>
                       (let sess = \<lparr>target_audience = target\<rparr>
                        in (Inr sess,
                            st2\<lparr>invoker_sess := Some sess, invoker_sess_route := route\<rparr>)))))"

text \<open>\<open>payload.get("service_route", '/')\<close>.\<close>

definition payload_route :: "payload \<Rightarrow> string" where
  "payload_route pl = (case service_route pl of None \<Rightarrow> ''/'' | Some r \<Rightarrow> r)"

text \<open>
  \<open>GCPCloudRunBackend.invoke\<close>. The three \<open>logger.debug\<close> branches have no effect on the
  result and are left out. A response whose status is neither 200 nor 202 falls off the
  end of the function, which returns \<open>None\<close>.
\<close>

definition invoke ::
  "cr_env \<Rightarrow> cr_config \<Rightarrow> string \<Rightarrow> int \<Rightarrow> payload \<Rightarrow> bool \<Rightarrow> cr_state
     \<Rightarrow> (cr_exn + json) \<times> cr_state" where
  "invoke env cfg runtime_name memory pl return_result st =
     (let route = payload_route pl
      in case build_invoker_sess env cfg runtime_name memory route st of
           (Inl e, st1) \<Rightarrow> (Inl e, st1)
         | (Inr sess, st1) \<Rightarrow>
             (case get_service_endpoint env cfg runtime_name memory st1 of
                (Inl e, st2) \<Rightarrow> (Inl e, st2)
              | (Inr u, st2) \<Rightarrow>
                  (let st3 = emit (HttpPost (u @ route)) st2
                   in case http_post env sess (u @ route) pl of
                        Inl e \<Rightarrow> (Inl (External e), st3)
                      | Inr res \<Rightarrow>
                          if status_code res = 200 \<or> status_code res = 202
                          then (case json_data res of
                                  None \<Rightarrow> (Inl JSONDecodeError, st3)
                                | Some data \<Rightarrow>
                                    if return_result then (Inr data, st3)
                                    else (activation_id data, st3))
                          else (Inr JNull, st3))))"

definition format_image_name :: "cr_config \<Rightarrow> string \<Rightarrow> string" where
  "format_image_name cfg runtime_name =
     (let runtime_name = replace_py ''_'' ''-'' (- 1) (replace_py ''.'' '''' (- 1) runtime_name);
          revision = (if contains_sub ''dev'' (version cfg) then ''latest''
                      else replace_py ''.'' '''' (- 1) (version cfg))
      in ''gcr.io/'' @ project_name cfg @ ''/lithops-'' @ runtime_name @ '':'' @ revision)"

definition preinstalls_payload :: payload where
  "preinstalls_payload = \<lparr>pl_executor_id = None, pl_job_id = None, pl_call_id = None,
                           service_route = Some ''/preinstalls'', content = []\<rparr>"

definition generate_runtime_meta ::
  "cr_env \<Rightarrow> cr_config \<Rightarrow> string \<Rightarrow> int \<Rightarrow> cr_state \<Rightarrow> (cr_exn + json) \<times> cr_state" where
  "generate_runtime_meta env cfg runtime_name memory st =
     (case invoke env cfg runtime_name memory preinstalls_payload True st of
        (Inl e, st1) \<Rightarrow> (Inl (UnableToExtract e), st1)
      | (Inr runtime_meta, st1) \<Rightarrow>
          if \<not> truthy runtime_meta then (Inl (FailedGettingRuntimeMetadata runtime_meta), st1)
          else case py_in ''preinstalls'' runtime_meta of
                 Inl e \<Rightarrow> (Inl e, st1)
               | Inr present \<Rightarrow>
                   if \<not> present then (Inl (FailedGettingRuntimeMetadata runtime_meta), st1)
                   else (Inr runtime_meta, st1))"

text \<open>\<open>all(cond['status'] == 'True' for cond in res['status']['conditions'])\<close>.\<close>

definition service_ready :: "service \<Rightarrow> bool" where
  "service_ready res = list_all (\<lambda>c. c = ''True'') (conditions res)"

text \<open>
  The readiness loop of \<open>create_runtime\<close> (\<open>while not ready\<close>), with the local counter
  \<open>retry\<close> as its argument. The counter starts at the literal 15 and the loop leaves
  when it reaches 0, so it is a natural number here; were the body entered with
  \<open>retry = 0\<close>, the delay \<open>(1 / retry) * 25\<close> would raise \<open>ZeroDivisionError\<close>.
  The delay itself is a floating-point number of seconds; the trace records the value
  of \<open>retry\<close> it was computed from.
\<close>

fun wait_until_up ::
  "cr_env \<Rightarrow> cr_config \<Rightarrow> string \<Rightarrow> int \<Rightarrow> nat \<Rightarrow> cr_state \<Rightarrow> (cr_exn + unit) \<times> cr_state" where
  "wait_until_up env cfg runtime_name memory 0 st =
     (case api_get_service env cfg runtime_name memory st of
        (Inl e, st1) \<Rightarrow> (Inl e, st1)
      | (Inr res, st1) \<Rightarrow>
          if service_ready res
          then (Inr (), st1\<lparr>service_url := Some (url res)\<rparr>)
          else (Inl ZeroDivisionError, st1))"
| "wait_until_up env cfg runtime_name memory (Suc retry) st =
     (case api_get_service env cfg runtime_name memory st of
        (Inl e, st1) \<Rightarrow> (Inl e, st1)
      | (Inr res, st1) \<Rightarrow>
          if service_ready res
          then (Inr (), st1\<lparr>service_url := Some (url res)\<rparr>)
          else (let st2 = emit (Sleep (Suc retry)) st1
                in if retry = 0 then (Inl (MaximumRetriesReached res), st2)
                   else wait_until_up env cfg runtime_name memory retry st2))"

text \<open>
  The calls of \<open>k\<close> polls that found the service not ready, in a loop entered with
  \<open>retry = n\<close>: each \<open>get\<close> is followed by a sleep computed from the current counter.
\<close>

definition poll_trace :: "string \<Rightarrow> nat \<Rightarrow> nat \<Rightarrow> cr_call list" where
  "poll_trace p n k = concat (map (\<lambda>j. [ApiGetService p, Sleep (n - j)]) [0..<k])"

text \<open>
  \<open>GCPCloudRunBackend.create_runtime\<close>. Building and pushing the default image
  (\<open>_build_default_runtime\<close>, all of it shell commands) is an external step that
  succeeds or raises. The body of the create request carries fields that do not
  influence the control flow; the trace keeps the parent and the service name.
\<close>

definition create_runtime ::
  "cr_env \<Rightarrow> cr_config \<Rightarrow> string \<Rightarrow> int \<Rightarrow> int \<Rightarrow> cr_state \<Rightarrow> (cr_exn + json) \<times> cr_state" where
  "create_runtime env cfg runtime_name memory timeout st =
     (case (if runtime_name = default_runtime_name cfg
            then (case build_default env of
                    Some e \<Rightarrow> (Inl (BuildFailed e), emit BuildDefaultRuntime st)
                  | None \<Rightarrow> (Inr (), emit BuildDefaultRuntime st))
            else (Inr (), st)) of
        (Inl e, st0) \<Rightarrow> (Inl e, st0)
      | (Inr _, st0) \<Rightarrow>
          (let service_name = format_service_name (version cfg) runtime_name memory;
               parent = ''namespaces/'' @ project_name cfg
           in case build_api_resource env st0 of
                (Inl e, st1) \<Rightarrow> (Inl e, st1)
              | (Inr _, st1) \<Rightarrow>
                  (let st2 = emit (ApiCreateService parent service_name) st1
                   in case create_service env parent service_name of
                        Some e \<Rightarrow> (Inl (External e), st2)
                      | None \<Rightarrow>
                          (case wait_until_up env cfg runtime_name memory 15 st2 of
                             (Inl e, st3) \<Rightarrow> (Inl e, st3)
                           | (Inr _, st3) \<Rightarrow>
                               generate_runtime_meta env cfg runtime_name memory st3))))"

text \<open>The calls that create a service.\<close>

fun is_create_call :: "cr_call \<Rightarrow> bool" where
  "is_create_call (ApiCreateService parent name) = True"
| "is_create_call c = False"

section \<open>IBM VPC: the instance client and its environment\<close>

text \<open>
  The resources of the VPC API as far as the client reads them: a floating IP with its
  optional \<open>target\<close> (the network interface it is bound to), an instance with its
  primary and its listed network interfaces, and a network interface of
  \<open>list_instance_network_interfaces\<close> with its optional \<open>floating_ips\<close> entry.
\<close>

record target =
  target_id :: string
  target_primary_ipv4_address :: string

record floating_ip =
  fip_id :: string
  fip_name :: string
  fip_address :: string
  fip_target :: "target option"

record network_interface =
  ni_id :: string
  ni_primary_ipv4_address :: string

record vsi =
  inst_id :: string
  inst_name :: string
  primary_network_interface :: network_interface
  network_interfaces :: "network_interface list"

record nic =
  nic_id :: string
  nic_floating_ips :: "floating_ip list option"

text \<open>
  The exceptions of the client. \<open>ApiException\<close> is raised inside a call of the VPC SDK,
  the token manager or the HTTP session. \<open>IndexError\<close> is what the handler of a failed
  attachment raises: its log line formats two fields from one argument, so the handler
  fails before it reaches \<open>raise e\<close>. \<open>UnboundLocalError\<close> is a read of the loop
  variable \<open>instance\<close> after a loop that never ran. \<open>NoneTypeError\<close> is the
  \<open>TypeError\<close> of building a URL from an instance id that is \<open>None\<close>.
\<close>

datatype vpc_exn =
    ApiException string
  | IndexError
  | UnboundLocalError
  | NoneTypeError
  | CantCreateInstanceAction string
  | ErrorCreatingInstanceAction string int

datatype vpc_call =
    ListInstances
  | CreateInstance string string string
  | ListFloatingIps
  | CreateFloatingIp string
  | AddInstanceNetworkInterfaceFloatingIp string string string
  | ListInstanceNetworkInterfaces "string option"
  | DeleteFloatingIp string
  | DeleteInstance "string option"
  | GetToken
  | PostInstanceAction string string
  | GetInstance string
  | SleepOneSecond

text \<open>
  The environment answers the external calls: the random name generator (its
  \<open>k\<close>-th draw), the VPC SDK (\<open>self.service\<close>), the token manager and the HTTP session
  (the status code of the answer to an instance action, and the status of the instance
  at its \<open>n\<close>-th \<open>get\<close>). An \<open>Inl\<close> or \<open>Some\<close> answer is the exception the call raises.
  \<open>CreateInstance\<close> is answered by the name of the instance asked for.
\<close>

record vpc_env =
  namegenerator_gen :: "nat \<Rightarrow> string"
  svc_list_instances :: "string + vsi list"
  svc_create_instance :: "string \<Rightarrow> string + vsi"
  svc_list_floating_ips :: "string + floating_ip list"
  svc_create_floating_ip :: "string \<Rightarrow> string + floating_ip"
  svc_add_instance_network_interface_floating_ip :: "string \<Rightarrow> string \<Rightarrow> string \<Rightarrow> string option"
  svc_list_instance_network_interfaces :: "string option \<Rightarrow> string + nic list"
  svc_delete_floating_ip :: "string \<Rightarrow> string option"
  svc_delete_instance :: "string option \<Rightarrow> string option"
  iam_get_token :: "string option"
  sess_post_action :: "string \<Rightarrow> string \<Rightarrow> string + int"
  sess_get_instance :: "nat \<Rightarrow> string \<Rightarrow> string + string"

text \<open>
  The mutable attributes of \<open>IBMVPCInstanceClient\<close> (\<open>self.instance_id\<close>, the entries
  \<open>instance_id\<close> and \<open>ip_address\<close> of \<open>self.config\<close>, the status held in
  \<open>self.instance_data\<close>), the flag \<open>config['delete_on_dismantle']\<close>, and three ghost
  fields: the number of random names drawn, the number of instance \<open>get\<close>s made, and the
  external calls issued so far (oldest first).
\<close>

record vpc_state =
  instance_id :: "string option"
  config_instance_id :: "string option"
  config_ip_address :: "string option"
  delete_on_dismantle :: bool
  instance_data_status :: "string option"
  draws :: nat
  instance_gets :: nat
  vpc_calls :: "vpc_call list"

definition issue :: "vpc_call \<Rightarrow> vpc_state \<Rightarrow> vpc_state" where
  "issue c st = st\<lparr>vpc_calls := vpc_calls st @ [c]\<rparr>"

text \<open>\<open>self._generate_name(r_type, job_key, call_id)\<close> on the client's state.\<close>

definition gen_name ::
  "vpc_env \<Rightarrow> string \<Rightarrow> pyval option \<Rightarrow> pyval option \<Rightarrow> vpc_state \<Rightarrow> string \<times> vpc_state" where
  "gen_name env r_type job_key call_id st =
     (let (name, k) = generate_name (namegenerator_gen env) (draws st) r_type job_key call_id
      in (name, st\<lparr>draws := k\<rparr>))"

text \<open>
  \<open>_create_instance\<close>: the prototype is built with three generated names, in the order
  volume, boot volume attachment, instance; the other fields are configuration passed
  through.
\<close>

definition create_instance ::
  "vpc_env \<Rightarrow> pyval option \<Rightarrow> pyval option \<Rightarrow> vpc_state \<Rightarrow> (vpc_exn + vsi) \<times> vpc_state" where
  "create_instance env job_key call_id st =
     (let (volume_name, st1) = gen_name env ''volume'' job_key call_id st;
          (boot_name, st2) = gen_name env ''boot'' job_key call_id st1;
          (instance_name, st3) = gen_name env ''instance'' job_key call_id st2;
          st4 = issue (CreateInstance instance_name boot_name volume_name) st3
      in case svc_create_instance env instance_name of
           Inl e \<Rightarrow> (Inl (ApiException e), st4)
         | Inr response \<Rightarrow> (Inr response, st4))"

text \<open>The lookup loop of \<open>_create_and_attach_floating_ip\<close>: the last match is kept.\<close>

fun find_floating_ip :: "string \<Rightarrow> floating_ip list \<Rightarrow> floating_ip option \<Rightarrow> floating_ip option" where
  "find_floating_ip name [] floating_ip = floating_ip"
| "find_floating_ip name (vip # vips) floating_ip =
     find_floating_ip name vips (if fip_name vip = name then Some vip else floating_ip)"

definition already_attached :: "floating_ip \<Rightarrow> network_interface \<Rightarrow> bool" where
  "already_attached floating_ip primary_ni =
     (case fip_target floating_ip of
        None \<Rightarrow> False
      | Some t \<Rightarrow> target_primary_ipv4_address t = ni_primary_ipv4_address primary_ni
                  \<and> target_id t = ni_id primary_ni)"

definition create_and_attach_floating_ip ::
  "vpc_env \<Rightarrow> vsi \<Rightarrow> pyval option \<Rightarrow> pyval option \<Rightarrow> vpc_state
     \<Rightarrow> (vpc_exn + string) \<times> vpc_state" where
  "create_and_attach_floating_ip env inst job_key call_id st =
     (let (floating_ip_name, st1) = gen_name env ''fip'' job_key call_id st;
          st2 = issue ListFloatingIps st1;
          found = (case svc_list_floating_ips env of
                     Inl e \<Rightarrow> None
                   | Inr floating_ip_list \<Rightarrow> find_floating_ip floating_ip_name floating_ip_list None)
      in case (case found of
                 Some vip \<Rightarrow> (Inr vip, st2)
               | None \<Rightarrow>
                   (case svc_create_floating_ip env floating_ip_name of
                      Inl e \<Rightarrow> (Inl (ApiException e), issue (CreateFloatingIp floating_ip_name) st2)
                    | Inr response \<Rightarrow> (Inr response, issue (CreateFloatingIp floating_ip_name) st2))) of
           (Inl e, st3) \<Rightarrow> (Inl e, st3)
         | (Inr floating_ip, st3) \<Rightarrow>
             if already_attached floating_ip (primary_network_interface inst)
             then (Inr (fip_address floating_ip), st3)
             else (case network_interfaces inst of
                     [] \<Rightarrow> (Inl IndexError, st3)
                   | ni # _ \<Rightarrow>
                       (let st4 = issue (AddInstanceNetworkInterfaceFloatingIp
                                           (inst_id inst) (ni_id ni) (fip_id floating_ip)) st3
                        in case svc_add_instance_network_interface_floating_ip env
                                  (inst_id inst) (ni_id ni) (fip_id floating_ip) of
                             Some e \<Rightarrow> (Inl IndexError, st4)
                           | None \<Rightarrow> (Inr (fip_address floating_ip), st4))))"

text \<open>
  \<open>_delete_instance\<close>: the inner loop over the floating IPs of one interface, the outer
  loop over the interfaces, then the deletion of the instance \<open>config['instance_id']\<close>.
  No call is guarded: the first one that raises ends the method.
\<close>

fun delete_floating_ips :: "vpc_env \<Rightarrow> floating_ip list \<Rightarrow> vpc_state \<Rightarrow> (vpc_exn + unit) \<times> vpc_state" where
  "delete_floating_ips env [] st = (Inr (), st)"
| "delete_floating_ips env (fip # fips) st =
     (let st1 = issue (DeleteFloatingIp (fip_id fip)) st
      in case svc_delete_floating_ip env (fip_id fip) of
           Some e \<Rightarrow> (Inl (ApiException e), st1)
         | None \<Rightarrow> delete_floating_ips env fips st1)"

fun delete_nic_floating_ips :: "vpc_env \<Rightarrow> nic list \<Rightarrow> vpc_state \<Rightarrow> (vpc_exn + unit) \<times> vpc_state" where
  "delete_nic_floating_ips env [] st = (Inr (), st)"
| "delete_nic_floating_ips env (n # nics) st =
     (case nic_floating_ips n of
        None \<Rightarrow> delete_nic_floating_ips env nics st
      | Some fips \<Rightarrow>
          (case delete_floating_ips env fips st of
             (Inl e, st1) \<Rightarrow> (Inl e, st1)
           | (Inr _, st1) \<Rightarrow> delete_nic_floating_ips env nics st1))"

definition delete_instance :: "vpc_env \<Rightarrow> vpc_state \<Rightarrow> (vpc_exn + unit) \<times> vpc_state" where
  "delete_instance env st =
     (let st1 = issue (ListInstanceNetworkInterfaces (config_instance_id st)) st
      in case svc_list_instance_network_interfaces env (config_instance_id st) of
           Inl e \<Rightarrow> (Inl (ApiException e), st1)
         | Inr nics \<Rightarrow>
             (case delete_nic_floating_ips env nics st1 of
                (Inl e, st2) \<Rightarrow> (Inl e, st2)
              | (Inr _, st2) \<Rightarrow>
                  (let st3 = issue (DeleteInstance (config_instance_id st2)) st2
                   in case svc_delete_instance env (config_instance_id st2) of
                        Some e \<Rightarrow> (Inl (ApiException e), st3)
                      | None \<Rightarrow> (Inr (), st3))))"

text \<open>
  The first half of \<open>create\<close>: \<open>self.instance_id\<close> is reset, the instances are listed,
  and the loop compares each name with a name generated anew at every iteration. The
  loop variable \<open>instance\<close> outlives the loop: when an instance was found, the instance
  handed on is the last one of the listing. When none was found, the instance is
  created and its id stored in \<open>self.instance_id\<close> and in \<open>config['instance_id']\<close>.
  The result tells whether the instance existed, and the instance handed on.
\<close>

fun find_vsi ::
  "vpc_env \<Rightarrow> pyval option \<Rightarrow> pyval option \<Rightarrow> vsi list \<Rightarrow> bool \<times> vsi option \<times> vpc_state
     \<Rightarrow> bool \<times> vsi option \<times> vpc_state" where
  "find_vsi env job_key call_id [] acc = acc"
| "find_vsi env job_key call_id (i # rest) (vsi_exists, loop_var, st) =
     (let (name, st1) = gen_name env ''instance'' job_key call_id st
      in if inst_name i = name
         then find_vsi env job_key call_id rest (True, Some i, st1\<lparr>instance_id := Some (inst_id i)\<rparr>)
         else find_vsi env job_key call_id rest (vsi_exists, Some i, st1))"

definition create_vsi ::
  "vpc_env \<Rightarrow> pyval option \<Rightarrow> pyval option \<Rightarrow> vpc_state
     \<Rightarrow> (vpc_exn + bool \<times> vsi) \<times> vpc_state" where
  "create_vsi env job_key call_id st =
     (let st1 = issue ListInstances (st\<lparr>instance_id := None\<rparr>)
      in case svc_list_instances env of
           Inl e \<Rightarrow> (Inl (ApiException e), st1)
         | Inr all_instances \<Rightarrow>
             (case find_vsi env job_key call_id all_instances (False, None, st1) of
                (True, loop_var, st2) \<Rightarrow>
                  (case loop_var of
                     None \<Rightarrow> (Inl UnboundLocalError, st2)
                   | Some i \<Rightarrow> (Inr (True, i), st2))
              | (False, loop_var, st2) \<Rightarrow>
                  (case create_instance env job_key call_id st2 of
                     (Inl e, st3) \<Rightarrow> (Inl e, st3)
                   | (Inr i, st3) \<Rightarrow>
                       (Inr (False, i),
                        st3\<lparr>instance_id := Some (inst_id i),
                            config_instance_id := Some (inst_id i)\<rparr>))))"

text \<open>
  \<open>create\<close>: the first half, then the floating IP; when that raises, \<open>_delete_instance\<close>
  runs and the exception is raised again, unless \<open>_delete_instance\<close> raised itself.
\<close>

definition create ::
  "vpc_env \<Rightarrow> pyval option \<Rightarrow> pyval option \<Rightarrow> vpc_state
     \<Rightarrow> (vpc_exn + string option \<times> string) \<times> vpc_state" where
  "create env job_key call_id st =
     (case create_vsi env job_key call_id st of
        (Inl e, st1) \<Rightarrow> (Inl e, st1)
      | (Inr (vsi_exists, inst), st1) \<Rightarrow>
          (case create_and_attach_floating_ip env inst job_key call_id st1 of
             (Inr floating_ip, st2) \<Rightarrow>
               (Inr (instance_id st2, floating_ip), st2\<lparr>config_ip_address := Some floating_ip\<rparr>)
           | (Inl e, st2) \<Rightarrow>
               (case delete_instance env st2 of
                  (Inl e', st3) \<Rightarrow> (Inl e', st3)
                | (Inr _, st3) \<Rightarrow> (Inl e, st3))))"

text \<open>
  \<open>_authorize_session\<close> and \<open>get_instance\<close>. The URL of \<open>get_instance\<close> is built from
  \<open>self.instance_id\<close>, that of an instance action from \<open>config['instance_id']\<close>.
\<close>

definition authorize_session :: "vpc_env \<Rightarrow> vpc_state \<Rightarrow> (vpc_exn + unit) \<times> vpc_state" where
  "authorize_session env st =
     (case iam_get_token env of
        Some e \<Rightarrow> (Inl (ApiException e), issue GetToken st)
      | None \<Rightarrow> (Inr (), issue GetToken st))"

definition get_instance :: "vpc_env \<Rightarrow> vpc_state \<Rightarrow> (vpc_exn + string) \<times> vpc_state" where
  "get_instance env st =
     (case instance_id st of
        None \<Rightarrow> (Inl NoneTypeError, st)
      | Some iid \<Rightarrow>
          (case authorize_session env st of
             (Inl e, st1) \<Rightarrow> (Inl e, st1)
           | (Inr _, st1) \<Rightarrow>
               (let st2 = (issue (GetInstance iid) st1)\<lparr>instance_gets := Suc (instance_gets st1)\<rparr>
                in case sess_get_instance env (instance_gets st1) iid of
                     Inl e \<Rightarrow> (Inl (ApiException e), st2)
                   | Inr status \<Rightarrow> (Inr status, st2))))"

text \<open>
  The waiting loop of \<open>create_instance_action\<close> has no bound in the source. \<open>fuel\<close> is
  the number of times its condition may be tested; the result \<open>None\<close> is a loop still
  running when the fuel is spent.
\<close>

fun wait_for_status ::
  "vpc_env \<Rightarrow> string \<Rightarrow> nat \<Rightarrow> vpc_state \<Rightarrow> (vpc_exn + unit) option \<times> vpc_state" where
  "wait_for_status env expected_status 0 st = (None, st)"
| "wait_for_status env expected_status (Suc fuel) st =
     (if instance_data_status st = Some expected_status then (Some (Inr ()), st)
      else (case get_instance env (issue SleepOneSecond st) of
              (Inl e, st1) \<Rightarrow> (Some (Inl e), st1)
            | (Inr status, st1) \<Rightarrow>
                wait_for_status env expected_status fuel
                  (st1\<lparr>instance_data_status := Some status\<rparr>)))"

definition create_instance_action ::
  "vpc_env \<Rightarrow> nat \<Rightarrow> string \<Rightarrow> vpc_state \<Rightarrow> (vpc_exn + unit) option \<times> vpc_state" where
  "create_instance_action env fuel action st =
     (if action \<noteq> ''start'' \<and> action \<noteq> ''reboot'' \<and> action \<noteq> ''stop''
      then (Some (Inl (CantCreateInstanceAction action)), st)
      else
        (let expected_status = (if action = ''stop'' then ''stopped'' else ''running'')
         in case config_instance_id st of
              None \<Rightarrow> (Some (Inl NoneTypeError), st)
            | Some iid \<Rightarrow>
                (case authorize_session env st of
                   (Inl e, st1) \<Rightarrow> (Some (Inl e), st1)
                 | (Inr _, st1) \<Rightarrow>
                     (let st2 = issue (PostInstanceAction iid action) st1
                      in case sess_post_action env iid action of
                           Inl e \<Rightarrow> (Some (Inl (ApiException e)), st2)
                         | Inr code \<Rightarrow>
                             if code \<noteq> 201
                             then (Some (Inl (ErrorCreatingInstanceAction action code)), st2)
                             else (case get_instance env st2 of
                                     (Inl e, st3) \<Rightarrow> (Some (Inl e), st3)
                                   | (Inr status, st3) \<Rightarrow>
                                       wait_for_status env expected_status fuel
                                         (st3\<lparr>instance_data_status := Some status\<rparr>))))))"

definition start :: "vpc_env \<Rightarrow> nat \<Rightarrow> vpc_state \<Rightarrow> (vpc_exn + unit) option \<times> vpc_state" where
  "start env fuel st = create_instance_action env fuel ''start'' st"

definition stop :: "vpc_env \<Rightarrow> nat \<Rightarrow> vpc_state \<Rightarrow> (vpc_exn + unit) option \<times> vpc_state" where
  "stop env fuel st =
     (if delete_on_dismantle st
      then (case delete_instance env st of (r, st1) \<Rightarrow> (Some r, st1))
      else create_instance_action env fuel ''stop'' st)"

text \<open>
  The floating IPs that \<open>_delete_instance\<close> visits, in the order of its two loops, and
  the calls it issues for an instance id and a listing of interfaces when none raises.
\<close>

definition attached_floating_ips :: "nic list \<Rightarrow> floating_ip list" where
  "attached_floating_ips nics =
     concat (map (\<lambda>n. case nic_floating_ips n of None \<Rightarrow> [] | Some fips \<Rightarrow> fips) nics)"

definition teardown_calls :: "string option \<Rightarrow> nic list \<Rightarrow> vpc_call list" where
  "teardown_calls iid nics =
     ListInstanceNetworkInterfaces iid
       # map (\<lambda>fip. DeleteFloatingIp (fip_id fip)) (attached_floating_ips nics)
       @ [DeleteInstance iid]"

text \<open>The calls that create an instance, and the calls that release a resource.\<close>

fun is_create_instance :: "vpc_call \<Rightarrow> bool" where
  "is_create_instance (CreateInstance iname bname vname) = True"
| "is_create_instance c = False"

fun is_release_call :: "vpc_call \<Rightarrow> bool" where
  "is_release_call (DeleteFloatingIp fid) = True"
| "is_release_call (DeleteInstance iid) = True"
| "is_release_call c = False"

text \<open>The calls of the waiting loop of an instance action.\<close>

fun is_poll_call :: "vpc_call \<Rightarrow> bool" where
  "is_poll_call GetToken = True"
| "is_poll_call (GetInstance iid) = True"
| "is_poll_call SleepOneSecond = True"
| "is_poll_call c = False"

section \<open>Concrete scenarios\<close>

text \<open>
  A Cloud Run project whose library calls all succeed: the \<open>k\<close>-th \<open>get\<close> answers with
  \<open>sts k\<close> and every \<open>post\<close> with \<open>resp\<close>. \<open>demo_service up\<close> is a service with its URL
  assigned whose second condition is \<open>True\<close> only when \<open>up\<close>.
\<close>

definition demo_cfg :: cr_config where
  "demo_cfg = \<lparr>project_name = ''proj'', credentials_path = ''/key.json'',
                version = ''2.2.5'', default_runtime_name = ''default''\<rparr>"

definition demo_env :: "(nat \<Rightarrow> service) \<Rightarrow> http_response \<Rightarrow> cr_env" where
  "demo_env sts resp = \<lparr>build_api = None, create_service = (\<lambda>parent name. None),
       get_service = (\<lambda>k name. Inr (sts k)), load_id_credentials = (\<lambda>target. None),
       http_post = (\<lambda>sess u pl. Inr resp), build_default = None\<rparr>"

definition demo_service :: "bool \<Rightarrow> service" where
  "demo_service up = \<lparr>conditions = [''True'', if up then ''True'' else ''Unknown''],
                       url = ''https://svc.example''\<rparr>"

definition demo_payload :: payload where
  "demo_payload = \<lparr>pl_executor_id = Some ''e1'', pl_job_id = Some ''7'', pl_call_id = Some ''3'',
                    service_route = None, content = [(''x'', JInt 1)]\<rparr>"

definition demo_response :: "int \<Rightarrow> json \<Rightarrow> http_response" where
  "demo_response code data = \<lparr>status_code = code, json_data = Some data\<rparr>"

text \<open>
  A VPC region whose calls all succeed, with given listings of instances, floating IPs
  and network interfaces: the \<open>k\<close>-th random name is \<open>k + 1\<close> letters \<open>z\<close>, a created instance gets ids derived from its name and one
  network interface, a created floating IP is unbound, and the instance is reported
  \<open>stopped\<close> from its third \<open>get\<close> on.
\<close>

definition demo_vsi :: "string \<Rightarrow> vsi" where
  "demo_vsi name =
     \<lparr>inst_id = ''id-'' @ name, inst_name = name,
      primary_network_interface = \<lparr>ni_id = ''ni-'' @ name, ni_primary_ipv4_address = ''10.0.0.4''\<rparr>,
      network_interfaces = [\<lparr>ni_id = ''ni-'' @ name, ni_primary_ipv4_address = ''10.0.0.4''\<rparr>]\<rparr>"

definition demo_fip :: "string \<Rightarrow> string \<Rightarrow> target option \<Rightarrow> floating_ip" where
  "demo_fip ident name tgt =
     \<lparr>fip_id = ident, fip_name = name, fip_address = ''169.1.2.3'', fip_target = tgt\<rparr>"

definition demo_gen :: "nat \<Rightarrow> string" where
  "demo_gen k = replicate (Suc k) CHR ''z''"

definition demo_vpc_env :: "vsi list \<Rightarrow> floating_ip list \<Rightarrow> nic list \<Rightarrow> vpc_env" where
  "demo_vpc_env insts fips nics =
     \<lparr>namegenerator_gen = demo_gen,
      svc_list_instances = Inr insts,
      svc_create_instance = (\<lambda>name. Inr (demo_vsi name)),
      svc_list_floating_ips = Inr fips,
      svc_create_floating_ip = (\<lambda>name. Inr (demo_fip (''fip-'' @ name) name None)),
      svc_add_instance_network_interface_floating_ip = (\<lambda>iid nid fid. None),
      svc_list_instance_network_interfaces = (\<lambda>iid. Inr nics),
      svc_delete_floating_ip = (\<lambda>fid. None),
      svc_delete_instance = (\<lambda>iid. None),
      iam_get_token = None,
      sess_post_action = (\<lambda>iid action. Inr 201),
      sess_get_instance = (\<lambda>k iid. Inr (if k < 2 then ''stopping'' else ''stopped''))\<rparr>"

definition demo_vpc_state :: "bool \<Rightarrow> vpc_state" where
  "demo_vpc_state del =
     \<lparr>instance_id = None, config_instance_id = None, config_ip_address = None,
      delete_on_dismantle = del, instance_data_status = None, draws = 0, instance_gets = 0,
      vpc_calls = []\<rparr>"

text \<open>
  A sequence of polls that always sees the same status, a region in which no floating
  IP can be allocated and the interfaces of an instance are listed as given, and the
  job and call ids of the running example.
\<close>

definition always_status :: "service \<Rightarrow> nat \<Rightarrow> service" where
  "always_status s k = s"

definition no_fip_env :: "string + nic list \<Rightarrow> vpc_env" where
  "no_fip_env nics_answer =
     (demo_vpc_env [] [] [])\<lparr>svc_create_floating_ip := (\<lambda>name. Inl ''quota''),
                             svc_list_instance_network_interfaces := (\<lambda>iid. nics_answer)\<rparr>"

definition demo_nics :: "nic list" where
  "demo_nics = [\<lparr>nic_id = ''n1'', nic_floating_ips = Some [demo_fip ''f1'' ''a'' None,
                                                          demo_fip ''f2'' ''b'' None]\<rparr>,
                \<lparr>nic_id = ''n2'', nic_floating_ips = None\<rparr>]"

definition demo_job :: "pyval option" where
  "demo_job = Some (PyInt 7)"

definition demo_call :: "pyval option" where
  "demo_call = Some (PyInt 3)"

definition demo_target :: target where
  "demo_target = \<lparr>target_id = ''ni-lithops7-3-instance'', target_primary_ipv4_address = ''10.0.0.4''\<rparr>"

text \<open>A client whose instance \<open>i1\<close> exists, with the keep-alive flag as given.\<close>

definition demo_running_state :: "bool \<Rightarrow> vpc_state" where
  "demo_running_state del =
     (demo_vpc_state del)\<lparr>instance_id := Some ''i1'', config_instance_id := Some ''i1''\<rparr>"

text \<open>
  A random generator that draws the same name every time, a region that uses it, and
  a region in which every release of a floating IP is refused.
\<close>

definition stuck_gen :: "nat \<Rightarrow> string" where
  "stuck_gen k = ''z''"

definition stuck_env :: "vsi list \<Rightarrow> vpc_env" where
  "stuck_env insts = (demo_vpc_env insts [] [])\<lparr>namegenerator_gen := stuck_gen\<rparr>"

definition busy_release_env :: vpc_env where
  "busy_release_env =
     (demo_vpc_env [] [] demo_nics)\<lparr>svc_delete_floating_ip := (\<lambda>fid. Some ''busy'')\<rparr>"

section \<open>Service names: the way back from a formatted name\<close>

lemma digit_val_digit_char: "d < 10 \<Longrightarrow> digit_val (digit_char d) = Some d"
proof -
  assume "d < 10"
  then have "d \<in> {0,1,2,3,4,5,6,7,8,9}" by auto
  then show ?thesis by (auto simp: digit_val_def digit_char_def)
qed

lemma digit_char_not_special:
  "d < 10 \<Longrightarrow> digit_char d \<noteq> CHR ''-'' \<and> digit_char d \<noteq> CHR ''+'' \<and> digit_char d \<noteq> CHR ''m''"
proof -
  assume "d < 10"
  then have "d \<in> {0,1,2,3,4,5,6,7,8,9}" by auto
  then show ?thesis by (auto simp: digit_char_def)
qed

lemma digits_val_snoc:
  "digits_val acc (xs @ [c]) =
     (case digits_val acc xs of None \<Rightarrow> None
      | Some a \<Rightarrow> (case digit_val c of None \<Rightarrow> None | Some d \<Rightarrow> Some (10 * a + d)))"
  by (induction xs arbitrary: acc) (auto split: option.splits)

lemma digits_val_str_nat: "digits_val 0 (str_nat n) = Some n"
proof (induction n rule: str_nat.induct)
  case (1 n)
  show ?case
  proof (cases "n < 10")
    case True
    then show ?thesis by (subst str_nat.simps) (simp add: digit_val_digit_char)
  next
    case False
    with 1 have "digits_val 0 (str_nat (n div 10)) = Some (n div 10)" by simp
    with False show ?thesis
      by (subst str_nat.simps) (simp add: digits_val_snoc digit_val_digit_char)
  qed
qed

lemma str_nat_chars:
  "c \<in> set (str_nat n) \<Longrightarrow> c \<noteq> CHR ''-'' \<and> c \<noteq> CHR ''+'' \<and> c \<noteq> CHR ''m''"
proof (induction n rule: str_nat.induct)
  case (1 n)
  show ?case
  proof (cases "n < 10")
    case True
    with 1(2) show ?thesis
      by (subst (asm) str_nat.simps) (simp add: digit_char_not_special)
  next
    case False
    with 1 show ?thesis
      by (subst (asm) (2) str_nat.simps) (auto simp: digit_char_not_special)
  qed
qed

lemma str_nat_nonempty: "str_nat n \<noteq> []"
  by (subst str_nat.simps) simp

lemma py_int_str_nat: "py_int (str_nat n) = Inr (int n)"
proof -
  obtain c cs where s: "str_nat n = c # cs"
    using str_nat_nonempty by (cases "str_nat n") auto
  then have "c \<in> set (str_nat n)" by simp
  then have "c \<noteq> CHR ''-''" "c \<noteq> CHR ''+''" using str_nat_chars by blast+
  moreover have "digits_val 0 (c # cs) = Some n" using digits_val_str_nat [of n] s by simp
  ultimately show ?thesis by (simp add: py_int_def s)
qed

lemma split_first_dashes:
  "CHR ''-'' \<notin> set a \<Longrightarrow> split_first ''--'' (a @ ''--'' @ b) = Some (a, b)"
  by (induction a) auto

lemma replace_mb_suffix:
  "CHR ''m'' \<notin> set d \<Longrightarrow> cnt < 0 \<Longrightarrow> replace_nonempty ''mb'' '''' cnt (d @ ''mb'') = d"
  by (induction d) auto

lemma rsplit1_service:
  "CHR ''-'' \<notin> set d \<Longrightarrow> rsplit1 ''--'' (p @ ''--'' @ d @ ''mb'') = Inr [p, d @ ''mb'']"
proof -
  assume d: "CHR ''-'' \<notin> set d"
  have "rev (p @ ''--'' @ d @ ''mb'') = (''bm'' @ rev d) @ ''--'' @ rev p" by simp
  moreover have "CHR ''-'' \<notin> set (''bm'' @ rev d)" using d by simp
  ultimately have "split_first ''--'' (rev (p @ ''--'' @ d @ ''mb'')) = Some (''bm'' @ rev d, rev p)"
    using split_first_dashes by metis
  then show ?thesis by (simp add: rsplit1_def)
qed

text \<open>
  C3 (amended). For every version string, every runtime name and every non-negative
  memory size, \<open>_unformat_service_name(_format_service_name(runtime_name, runtime_memory))\<close>
  succeeds and its memory component is \<open>runtime_memory\<close>. The name component is left
  open: it is the image-style name rebuilt from the whole prefix of the service name.
\<close>

theorem unformat_format_memory:
  assumes "0 \<le> runtime_memory"
  shows "\<exists>image_name. unformat_service_name (format_service_name ver runtime_name runtime_memory)
           = Inr (image_name, runtime_memory)"
proof -
  define d where "d = str_nat (nat runtime_memory)"
  define p where "p = ''lithops--'' @ replace_py ''.'' ''-'' (- 1) ver @ ''--''
       @ replace_py ''.'' '''' (- 1) runtime_name"
  have f: "format_service_name ver runtime_name runtime_memory = p @ ''--'' @ d @ ''mb''"
    using assms by (simp add: format_service_name_def p_def d_def str_int_def)
  have nd: "CHR ''-'' \<notin> set d" and nm: "CHR ''m'' \<notin> set d"
    using str_nat_chars unfolding d_def by blast+
  have r: "rsplit1 ''--'' (p @ ''--'' @ d @ ''mb'') = Inr [p, d @ ''mb'']"
    using rsplit1_service [OF nd] .
  have m: "replace_py ''mb'' '''' (- 1) (d @ ''mb'') = d"
    using replace_mb_suffix [OF nm, of "- 1"] by (simp add: replace_py_def)
  have i: "py_int d = Inr runtime_memory"
    using assms py_int_str_nat [of "nat runtime_memory"] by (simp add: d_def)
  show ?thesis
    unfolding f unformat_service_name_def r by (simp add: m i Let_def)
qed


theorem unformat_format_memory_witness:
  "(0::int) \<le> 256 \<and> (\<exists>image_name.
      unformat_service_name (format_service_name ''2.2.5'' ''py39'' 256) = Inr (image_name, 256))"
  using unformat_format_memory [of 256 "''2.2.5''" "''py39''"] by simp

text \<open>
  C3 as stated fails: with version 2.2.5, the name \<open>py39\<close> and 256 MB the way back
  yields the name \<open>lithops/2-2-5:py39\<close>, not \<open>py39\<close>.
\<close>

theorem unformat_format_counterexample:
  "unformat_service_name (format_service_name ''2.2.5'' ''py39'' 256)
     = Inr (''lithops/2-2-5:py39'', 256)
   \<and> unformat_service_name (format_service_name ''2.2.5'' ''py39'' 256) \<noteq> Inr (''py39'', 256)"
  by (simp add: unformat_service_name_def format_service_name_def replace_py_def rsplit1_def
        str_int_def str_nat.simps digit_char_def py_int_def digit_val_def)

section \<open>Resource names: determinism and collisions\<close>

lemma append_sep_unique_right:
  "c \<notin> set ys \<Longrightarrow> c \<notin> set ys' \<Longrightarrow> xs @ c # ys = xs' @ c # ys' \<Longrightarrow> xs = xs' \<and> ys = ys'"
proof (induction xs arbitrary: xs')
  case Nil
  then show ?case by (cases xs') auto
next
  case (Cons a as)
  then show ?case by (cases xs') auto
qed

lemma append_sep_unique_left:
  "c \<notin> set xs \<Longrightarrow> c \<notin> set xs' \<Longrightarrow> xs @ c # ys = xs' @ c # ys' \<Longrightarrow> xs = xs' \<and> ys = ys'"
proof (induction xs arbitrary: xs')
  case Nil
  then show ?case by (cases xs') auto
next
  case (Cons a as)
  then show ?case by (cases xs') auto
qed


text \<open>
  C9 (amended). The same \<open>(job_key, call_id)\<close> always maps to the same name, whatever
  the random source does. Two identities whose string forms \<open>(str(job_key), str(call_id))\<close>
  differ get different names of the same resource type, provided the two call ids are
  free of \<open>-\<close>, or the two job keys are.
\<close>

theorem generate_name_collision_free:
  "fst (generate_name gen k r_type (Some j) (Some c))
     = fst (generate_name gen' k' r_type (Some j) (Some c))
   \<and> (((CHR ''-'' \<notin> set (py_str c1) \<and> CHR ''-'' \<notin> set (py_str c2))
         \<or> (CHR ''-'' \<notin> set (py_str j1) \<and> CHR ''-'' \<notin> set (py_str j2)))
        \<longrightarrow> (py_str j1, py_str c1) \<noteq> (py_str j2, py_str c2)
        \<longrightarrow> fst (generate_name gen k r_type (Some j1) (Some c1))
              \<noteq> fst (generate_name gen' k' r_type (Some j2) (Some c2)))"
proof (intro conjI impI)
  show "fst (generate_name gen k r_type (Some j) (Some c))
     = fst (generate_name gen' k' r_type (Some j) (Some c))"
    by (simp add: generate_name_def)
next
  assume sep: "(CHR ''-'' \<notin> set (py_str c1) \<and> CHR ''-'' \<notin> set (py_str c2))
         \<or> (CHR ''-'' \<notin> set (py_str j1) \<and> CHR ''-'' \<notin> set (py_str j2))"
    and diff: "(py_str j1, py_str c1) \<noteq> (py_str j2, py_str c2)"
  show "fst (generate_name gen k r_type (Some j1) (Some c1))
          \<noteq> fst (generate_name gen' k' r_type (Some j2) (Some c2))"
  proof
    assume "fst (generate_name gen k r_type (Some j1) (Some c1))
             = fst (generate_name gen' k' r_type (Some j2) (Some c2))"
    then have "py_str j1 @ CHR ''-'' # py_str c1 = py_str j2 @ CHR ''-'' # py_str c2"
      by (simp add: generate_name_def)
    with sep have "py_str j1 = py_str j2 \<and> py_str c1 = py_str c2"
      using append_sep_unique_right append_sep_unique_left by metis
    with diff show False by simp
  qed
qed

theorem generate_name_collision_free_witness:
  "fst (generate_name (\<lambda>k. ''u'') 0 ''instance'' (Some (PyStr ''exec-7'')) (Some (PyInt 3)))
     = fst (generate_name (\<lambda>k. ''v'') 1 ''instance'' (Some (PyStr ''exec-7'')) (Some (PyInt 3)))
   \<and> fst (generate_name (\<lambda>k. ''u'') 0 ''instance'' (Some (PyStr ''exec-7'')) (Some (PyInt 3)))
     \<noteq> fst (generate_name (\<lambda>k. ''v'') 1 ''instance'' (Some (PyStr ''exec-7'')) (Some (PyInt 4)))"
proof -
  have s: "str_int 3 = ''3''" "str_int 4 = ''4''"
    by (simp_all add: str_int_def str_nat.simps digit_char_def)
  have sep: "(CHR ''-'' \<notin> set (py_str (PyInt 3)) \<and> CHR ''-'' \<notin> set (py_str (PyInt 4)))
         \<or> (CHR ''-'' \<notin> set (py_str (PyStr ''exec-7'')) \<and> CHR ''-'' \<notin> set (py_str (PyStr ''exec-7'')))"
    by (simp add: s)
  have diff: "(py_str (PyStr ''exec-7''), py_str (PyInt 3)) \<noteq> (py_str (PyStr ''exec-7''), py_str (PyInt 4))"
    by (simp add: s)
  from sep diff show ?thesis
    using generate_name_collision_free [of "\<lambda>k. ''u''" 0 "''instance''" "PyStr ''exec-7''" "PyInt 3"
        "\<lambda>k. ''v''" 1 "PyInt 3" "PyInt 4" "PyStr ''exec-7''" "PyStr ''exec-7''"]
    by blast
qed

text \<open>
  C9 as stated fails: the job key \<open>a-b\<close> with call id \<open>c\<close> and the job key \<open>a\<close> with
  call id \<open>b-c\<close> are different identities with the same instance name.
\<close>

theorem generate_name_collision_counterexample:
  "(PyStr ''a-b'', PyStr ''c'') \<noteq> (PyStr ''a'', PyStr ''b-c'')
   \<and> fst (generate_name demo_gen 0 ''instance'' (Some (PyStr ''a-b'')) (Some (PyStr ''c'')))
     = fst (generate_name demo_gen 0 ''instance'' (Some (PyStr ''a'')) (Some (PyStr ''b-c'')))"
  by (simp add: generate_name_def)

section \<open>Cloud Run: the readiness loop\<close>

lemma api_get_service_built:
  "api_resource st \<Longrightarrow> get_service env (gets st) (service_path cfg rn mem) = Inr res \<Longrightarrow>
   api_get_service env cfg rn mem st
     = (Inr res, (emit (ApiGetService (service_path cfg rn mem)) st)\<lparr>gets := Suc (gets st)\<rparr>)"
  by (simp add: api_get_service_def build_api_resource_def Let_def)

lemma poll_trace_Suc:
  "poll_trace p (Suc n) (Suc k) = [ApiGetService p, Sleep (Suc n)] @ poll_trace p n k"
proof -
  have "[0..<Suc k] = 0 # map Suc [0..<k]"
    by (simp add: upt_conv_Cons map_Suc_upt del: upt_Suc)
  then show ?thesis by (simp add: poll_trace_def comp_def del: upt_Suc)
qed

lemma wait_until_up_ready:
  assumes "api_resource st" "k < n" "service_ready (sts k)" "\<forall>j<k. \<not> service_ready (sts j)"
    "\<forall>j\<le>k. get_service env (gets st + j) (service_path cfg rn mem) = Inr (sts j)"
  shows "wait_until_up env cfg rn mem n st
     = (Inr (), st\<lparr>service_url := Some (url (sts k)), gets := gets st + Suc k,
           calls := calls st @ poll_trace (service_path cfg rn mem) n k
                      @ [ApiGetService (service_path cfg rn mem)]\<rparr>)"
  using assms
proof (induction n arbitrary: st k sts)
  case 0
  then show ?case by simp
next
  case (Suc n)
  have g0: "get_service env (gets st) (service_path cfg rn mem) = Inr (sts 0)"
    using Suc.prems(5) by (metis add.right_neutral le0)
  show ?case
  proof (cases k)
    case 0
    with Suc.prems g0 show ?thesis
      by (simp add: api_get_service_built emit_def poll_trace_def)
  next
    case (Suc k')
    let ?st2 = "emit (Sleep (Suc n)) ((emit (ApiGetService (service_path cfg rn mem)) st)\<lparr>gets := Suc (gets st)\<rparr>)"
    have nr: "\<not> service_ready (sts 0)" using Suc.prems(4) Suc by simp
    have npos: "n \<noteq> 0" using Suc.prems(2) Suc by simp
    have ih: "wait_until_up env cfg rn mem n ?st2
       = (Inr (), ?st2\<lparr>service_url := Some (url ((sts \<circ> Suc) k')), gets := gets ?st2 + Suc k',
           calls := calls ?st2 @ poll_trace (service_path cfg rn mem) n k'
                      @ [ApiGetService (service_path cfg rn mem)]\<rparr>)"
    proof (rule Suc.IH)
      show "api_resource ?st2" using Suc.prems(1) by (simp add: emit_def)
      show "k' < n" using Suc.prems(2) Suc by simp
      show "service_ready ((sts \<circ> Suc) k')" using Suc.prems(3) Suc by simp
      show "\<forall>j<k'. \<not> service_ready ((sts \<circ> Suc) j)" using Suc.prems(4) Suc by simp
      show "\<forall>j\<le>k'. get_service env (gets ?st2 + j) (service_path cfg rn mem) = Inr ((sts \<circ> Suc) j)"
      proof (intro allI impI)
        fix j assume "j \<le> k'"
        then have "Suc j \<le> k" using Suc by simp
        then have "get_service env (gets st + Suc j) (service_path cfg rn mem) = Inr (sts (Suc j))"
          using Suc.prems(5) by blast
        then show "get_service env (gets ?st2 + j) (service_path cfg rn mem) = Inr ((sts \<circ> Suc) j)"
          by (simp add: emit_def)
      qed
    qed
    show ?thesis
      using Suc.prems(1) g0 nr npos
      by (simp add: api_get_service_built Let_def ih Suc poll_trace_Suc) (simp add: emit_def)
  qed
qed

lemma wait_until_up_exhausted:
  assumes "api_resource st" "0 < n" "\<forall>j<n. \<not> service_ready (sts j)"
    "\<forall>j<n. get_service env (gets st + j) (service_path cfg rn mem) = Inr (sts j)"
  shows "wait_until_up env cfg rn mem n st
     = (Inl (MaximumRetriesReached (sts (n - 1))), st\<lparr>gets := gets st + n,
           calls := calls st @ poll_trace (service_path cfg rn mem) n n\<rparr>)"
  using assms
proof (induction n arbitrary: st sts)
  case 0
  then show ?case by simp
next
  case (Suc n)
  have g0: "get_service env (gets st) (service_path cfg rn mem) = Inr (sts 0)"
    using Suc.prems(4) by (metis add.right_neutral zero_less_Suc)
  have nr: "\<not> service_ready (sts 0)" using Suc.prems(3) by simp
  let ?st2 = "emit (Sleep (Suc n)) ((emit (ApiGetService (service_path cfg rn mem)) st)\<lparr>gets := Suc (gets st)\<rparr>)"
  show ?case
  proof (cases "n = 0")
    case True
    with Suc.prems(1) g0 nr show ?thesis
      by (simp add: api_get_service_built Let_def poll_trace_def emit_def)
  next
    case False
    have ih: "wait_until_up env cfg rn mem n ?st2
       = (Inl (MaximumRetriesReached ((sts \<circ> Suc) (n - 1))), ?st2\<lparr>gets := gets ?st2 + n,
           calls := calls ?st2 @ poll_trace (service_path cfg rn mem) n n\<rparr>)"
    proof (rule Suc.IH)
      show "api_resource ?st2" using Suc.prems(1) by (simp add: emit_def)
      show "0 < n" using False by simp
      show "\<forall>j<n. \<not> service_ready ((sts \<circ> Suc) j)" using Suc.prems(3) by simp
      show "\<forall>j<n. get_service env (gets ?st2 + j) (service_path cfg rn mem) = Inr ((sts \<circ> Suc) j)"
      proof (intro allI impI)
        fix j assume "j < n"
        then have "get_service env (gets st + Suc j) (service_path cfg rn mem) = Inr (sts (Suc j))"
          using Suc.prems(4) by (meson Suc_less_eq)
        then show "get_service env (gets ?st2 + j) (service_path cfg rn mem) = Inr ((sts \<circ> Suc) j)"
          by (simp add: emit_def)
      qed
    qed
    show ?thesis
      using Suc.prems(1) g0 nr False
      by (simp add: api_get_service_built Let_def ih poll_trace_Suc) (simp add: emit_def)
  qed
qed

section \<open>Cloud Run: invocation\<close>

lemma emit_fields [simp]: "calls (emit c st) = calls st @ [c]" "gets (emit c st) = gets st"
  "service_url (emit c st) = service_url st" "api_resource (emit c st) = api_resource st"
  "invoker_sess (emit c st) = invoker_sess st" "invoker_sess_route (emit c st) = invoker_sess_route st"
  by (simp_all add: emit_def)

lemma build_api_resource_calls:
  "build_api_resource env st = (r, st1) \<Longrightarrow>
     filter is_create_call (calls st1) = filter is_create_call (calls st) \<and> service_url st1 = service_url st"
  by (auto simp: build_api_resource_def split: if_splits option.splits)

lemma api_get_service_calls:
  "api_get_service env cfg rn mem st = (r, st1) \<Longrightarrow>
     filter is_create_call (calls st1) = filter is_create_call (calls st) \<and> service_url st1 = service_url st"
  by (auto simp: api_get_service_def Let_def split: prod.splits sum.splits dest: build_api_resource_calls)

lemma get_service_endpoint_calls:
  "get_service_endpoint env cfg rn mem st = (r, st1) \<Longrightarrow>
     filter is_create_call (calls st1) = filter is_create_call (calls st)"
  by (auto simp: get_service_endpoint_def split: option.splits prod.splits sum.splits dest: api_get_service_calls)

lemma get_service_endpoint_cached:
  "get_service_endpoint env cfg rn mem st = (Inr u, st1) \<Longrightarrow> service_url st1 = Some u"
  by (auto simp: get_service_endpoint_def split: option.splits prod.splits sum.splits)

lemma build_invoker_sess_calls:
  "build_invoker_sess env cfg rn mem route st = (r, st1) \<Longrightarrow>
     filter is_create_call (calls st1) = filter is_create_call (calls st)"
  by (auto simp: build_invoker_sess_def Let_def split: option.splits prod.splits sum.splits if_splits
       dest: get_service_endpoint_calls)

lemma invoke_never_creates:
  "filter is_create_call (calls (snd (invoke env cfg rn mem pl rr st))) = filter is_create_call (calls st)"
proof -
  define route where "route = payload_route pl"
  obtain r1 st1 where b: "build_invoker_sess env cfg rn mem route st = (r1, st1)"
    by (cases "build_invoker_sess env cfg rn mem route st")
  have f1: "filter is_create_call (calls st1) = filter is_create_call (calls st)"
    using build_invoker_sess_calls [OF b] .
  show ?thesis
  proof (cases r1)
    case (Inl e)
    with b f1 show ?thesis by (simp add: invoke_def route_def [symmetric])
  next
    case (Inr sess)
    obtain r2 st2 where e: "get_service_endpoint env cfg rn mem st1 = (r2, st2)"
      by (cases "get_service_endpoint env cfg rn mem st1")
    have f2: "filter is_create_call (calls st2) = filter is_create_call (calls st1)"
      using get_service_endpoint_calls [OF e] .
    show ?thesis
    proof (cases r2)
      case (Inl e2)
      with Inr b e f1 f2 show ?thesis by (simp add: invoke_def route_def [symmetric])
    next
      case (Inr u)
      with \<open>r1 = Inr sess\<close> b e f1 f2 show ?thesis
        by (simp add: invoke_def route_def [symmetric] Let_def split: sum.splits option.splits)
    qed
  qed
qed

lemma invoke_posts:
  assumes "get_service_endpoint env cfg rn mem st = (Inr u, st1)"
    and "load_id_credentials env (u @ route) = None"
    and "route = payload_route pl"
  shows "HttpPost (u @ route) \<in> set (calls (snd (invoke env cfg rn mem pl rr st)))"
proof (cases "(if route \<noteq> invoker_sess_route st then None else invoker_sess st)")
  case None
  have c: "service_url st1 = Some u" using assms(1) by (rule get_service_endpoint_cached)
  let ?st2 = "(emit (LoadIdTokenCredentials (u @ route)) st1)\<lparr>invoker_sess := Some \<lparr>target_audience = u @ route\<rparr>, invoker_sess_route := route\<rparr>"
  have b: "build_invoker_sess env cfg rn mem route st = (Inr \<lparr>target_audience = u @ route\<rparr>, ?st2)"
    using None assms(1,2) by (simp add: build_invoker_sess_def Let_def)
  have e: "get_service_endpoint env cfg rn mem ?st2 = (Inr u, ?st2)"
    using c by (simp add: get_service_endpoint_def)
  show ?thesis
    using assms(3) b e by (simp add: invoke_def Let_def split: sum.splits option.splits)
next
  case (Some sess)
  then have b: "build_invoker_sess env cfg rn mem route st = (Inr sess, st)"
    by (simp add: build_invoker_sess_def)
  show ?thesis
    using assms(1,3) b by (simp add: invoke_def Let_def split: sum.splits option.splits)
qed

lemma build_api_resource_ok:
  "api_resource st \<or> build_api env = None \<Longrightarrow>
   \<exists>st1. build_api_resource env st = (Inr (), st1) \<and> api_resource st1 \<and> gets st1 = gets st"
  by (auto simp: build_api_resource_def)

text \<open>
  C2. The readiness loop of \<open>create_runtime\<close> always ends within its budget of 15
  polls. Once the default image (when asked for), the API session and the create call
  have succeeded and the polls answer with the statuses \<open>sts 0, sts 1, ...\<close>:
  if poll \<open>k < 15\<close> is the first whose conditions all report \<open>True\<close>, the loop leaves
  after \<open>k + 1\<close> polls with the URL of that status cached, and \<open>create_runtime\<close> goes on
  to return what \<open>_generate_runtime_meta\<close> returns; if none of the 15 polls is ready,
  \<open>create_runtime\<close> raises the exception "Maximum retries reached" carrying the status
  of the 15th poll, after exactly 15 polls. The loop is a total function: it cannot
  wait without bound.
\<close>

theorem create_runtime_polling_bounded:
  assumes dflt: "runtime_name \<noteq> default_runtime_name cfg \<or> build_default env = None"
    and api: "api_resource st \<or> build_api env = None"
    and crt: "create_service env (''namespaces/'' @ project_name cfg)
                (format_service_name (version cfg) runtime_name memory) = None"
    and polls: "\<forall>j<15. get_service env (gets st + j) (service_path cfg runtime_name memory) = Inr (sts j)"
  shows "(\<forall>k<15. service_ready (sts k) \<longrightarrow> (\<forall>j<k. \<not> service_ready (sts j)) \<longrightarrow>
            (\<exists>st3. create_runtime env cfg runtime_name memory timeout st
                     = generate_runtime_meta env cfg runtime_name memory st3
                  \<and> service_url st3 = Some (url (sts k)) \<and> gets st3 = gets st + Suc k))
       \<and> ((\<forall>j<15. \<not> service_ready (sts j)) \<longrightarrow>
            fst (create_runtime env cfg runtime_name memory timeout st)
              = Inl (MaximumRetriesReached (sts 14))
            \<and> gets (snd (create_runtime env cfg runtime_name memory timeout st)) = gets st + 15)"
proof -
  define st0 where "st0 = (if runtime_name = default_runtime_name cfg then emit BuildDefaultRuntime st else st)"
  have pre: "(if runtime_name = default_runtime_name cfg
            then (case build_default env of
                    Some e \<Rightarrow> (Inl (BuildFailed e), emit BuildDefaultRuntime st)
                  | None \<Rightarrow> (Inr (), emit BuildDefaultRuntime st))
            else (Inr (), st)) = (Inr (), st0)"
    using dflt by (auto simp: st0_def)
  have "api_resource st0 \<or> build_api env = None" using api by (simp add: st0_def)
  then obtain st1 where b: "build_api_resource env st0 = (Inr (), st1)"
      and a1: "api_resource st1" and g1: "gets st1 = gets st"
    using build_api_resource_ok [of st0 env] by (auto simp: st0_def)
  define st2 where "st2 = emit (ApiCreateService (''namespaces/'' @ project_name cfg)
                (format_service_name (version cfg) runtime_name memory)) st1"
  have a2: "api_resource st2" and g2: "gets st2 = gets st" using a1 g1 by (simp_all add: st2_def)
  have cr: "create_runtime env cfg runtime_name memory timeout st
     = (case wait_until_up env cfg runtime_name memory 15 st2 of
          (Inl e, st3) \<Rightarrow> (Inl e, st3)
        | (Inr _, st3) \<Rightarrow> generate_runtime_meta env cfg runtime_name memory st3)"
    unfolding create_runtime_def pre using b crt by (simp add: Let_def st2_def)
  show ?thesis
  proof (intro conjI allI impI)
    fix k assume k: "k < 15" "service_ready (sts k)" "\<forall>j<k. \<not> service_ready (sts j)"
    have p: "\<forall>j\<le>k. get_service env (gets st2 + j) (service_path cfg runtime_name memory) = Inr (sts j)"
      using polls k(1) g2 by simp
    note w = wait_until_up_ready [OF a2 k(1) k(2) k(3) p]
    show "\<exists>st3. create_runtime env cfg runtime_name memory timeout st
                     = generate_runtime_meta env cfg runtime_name memory st3
                  \<and> service_url st3 = Some (url (sts k)) \<and> gets st3 = gets st + Suc k"
      unfolding cr w
      by (rule exI [of _ "st2\<lparr>service_url := Some (url (sts k)), gets := gets st2 + Suc k,
           calls := calls st2 @ poll_trace (service_path cfg runtime_name memory) 15 k
                      @ [ApiGetService (service_path cfg runtime_name memory)]\<rparr>"])
         (simp add: g2)
  next
    assume n: "\<forall>j<15. \<not> service_ready (sts j)"
    have p: "\<forall>j<15. get_service env (gets st2 + j) (service_path cfg runtime_name memory) = Inr (sts j)"
      using polls g2 by simp
    have w: "wait_until_up env cfg runtime_name memory 15 st2
       = (Inl (MaximumRetriesReached (sts (15 - 1))), st2\<lparr>gets := gets st2 + 15,
           calls := calls st2 @ poll_trace (service_path cfg runtime_name memory) 15 15\<rparr>)"
      by (rule wait_until_up_exhausted [OF a2 _ n p]) simp
    show "fst (create_runtime env cfg runtime_name memory timeout st)
              = Inl (MaximumRetriesReached (sts 14))"
      unfolding cr w by simp
    show "gets (snd (create_runtime env cfg runtime_name memory timeout st)) = gets st + 15"
      unfolding cr w using g2 by simp
  qed
qed

theorem create_runtime_polling_bounded_witness:
  "(\<exists>st3. create_runtime (demo_env (\<lambda>k. demo_service (2 \<le> k)) (demo_response 200 JNull))
              demo_cfg ''py39'' 256 60 init_state
           = generate_runtime_meta (demo_env (\<lambda>k. demo_service (2 \<le> k)) (demo_response 200 JNull))
              demo_cfg ''py39'' 256 st3
         \<and> service_url st3 = Some ''https://svc.example'' \<and> gets st3 = 3)
   \<and> fst (create_runtime (demo_env (\<lambda>k. demo_service False) (demo_response 200 JNull))
              demo_cfg ''py39'' 256 60 init_state)
       = Inl (MaximumRetriesReached (demo_service False))
   \<and> gets (snd (create_runtime (demo_env (\<lambda>k. demo_service False) (demo_response 200 JNull))
              demo_cfg ''py39'' 256 60 init_state)) = 15"
proof -
  have a: "(\<forall>k<15. service_ready (demo_service (2 \<le> k)) \<longrightarrow> (\<forall>j<k. \<not> service_ready (demo_service (2 \<le> j))) \<longrightarrow>
            (\<exists>st3. create_runtime (demo_env (\<lambda>k. demo_service (2 \<le> k)) (demo_response 200 JNull))
                       demo_cfg ''py39'' 256 60 init_state
                     = generate_runtime_meta (demo_env (\<lambda>k. demo_service (2 \<le> k)) (demo_response 200 JNull))
                       demo_cfg ''py39'' 256 st3
                  \<and> service_url st3 = Some (url (demo_service (2 \<le> k))) \<and> gets st3 = gets init_state + Suc k))"
    using create_runtime_polling_bounded [of "''py39''" demo_cfg
        "demo_env (\<lambda>k. demo_service (2 \<le> k)) (demo_response 200 JNull)" init_state 256
        "\<lambda>k. demo_service (2 \<le> k)" 60]
    by (simp add: demo_env_def demo_cfg_def init_state_def)
  have r: "service_ready (demo_service (2 \<le> (2::nat)))"
          "\<forall>j<2::nat. \<not> service_ready (demo_service (2 \<le> j))"
    by (simp_all add: demo_service_def service_ready_def)
  have b: "(\<forall>j<15::nat. \<not> service_ready (demo_service False)) \<longrightarrow>
            fst (create_runtime (demo_env (\<lambda>k. demo_service False) (demo_response 200 JNull))
              demo_cfg ''py39'' 256 60 init_state) = Inl (MaximumRetriesReached (demo_service False))
          \<and> gets (snd (create_runtime (demo_env (\<lambda>k. demo_service False) (demo_response 200 JNull))
              demo_cfg ''py39'' 256 60 init_state)) = gets init_state + 15"
    using create_runtime_polling_bounded [of "''py39''" demo_cfg
        "demo_env (\<lambda>k. demo_service False) (demo_response 200 JNull)" init_state 256
        "\<lambda>k. demo_service False" 60]
    by (simp add: demo_env_def demo_cfg_def init_state_def)
  have n: "\<not> service_ready (demo_service False)"
    by (simp add: demo_service_def service_ready_def)
  have u: "url (demo_service (2 \<le> (2::nat))) = ''https://svc.example''" "gets init_state + Suc 2 = 3"
    by (simp_all add: demo_service_def init_state_def)
  have "2 < (15::nat)" by simp
  with a r have "\<exists>st3. create_runtime (demo_env (\<lambda>k. demo_service (2 \<le> k)) (demo_response 200 JNull))
                       demo_cfg ''py39'' 256 60 init_state
                     = generate_runtime_meta (demo_env (\<lambda>k. demo_service (2 \<le> k)) (demo_response 200 JNull))
                       demo_cfg ''py39'' 256 st3
                  \<and> service_url st3 = Some (url (demo_service (2 \<le> (2::nat)))) \<and> gets st3 = gets init_state + Suc 2"
    by blast
  then have "\<exists>st3. create_runtime (demo_env (\<lambda>k. demo_service (2 \<le> k)) (demo_response 200 JNull))
                       demo_cfg ''py39'' 256 60 init_state
                     = generate_runtime_meta (demo_env (\<lambda>k. demo_service (2 \<le> k)) (demo_response 200 JNull))
                       demo_cfg ''py39'' 256 st3
                  \<and> service_url st3 = Some ''https://svc.example'' \<and> gets st3 = 3"
    unfolding u .
  moreover from b n have "fst (create_runtime (demo_env (\<lambda>k. demo_service False) (demo_response 200 JNull))
              demo_cfg ''py39'' 256 60 init_state) = Inl (MaximumRetriesReached (demo_service False))
          \<and> gets (snd (create_runtime (demo_env (\<lambda>k. demo_service False) (demo_response 200 JNull))
              demo_cfg ''py39'' 256 60 init_state)) = 15"
    by (simp add: init_state_def)
  ultimately show ?thesis by blast
qed

text \<open>
  C5 (amended). When the session and the endpoint are obtained and the \<open>post\<close> is
  answered with a status that is neither 200 nor 202, \<open>invoke\<close> raises nothing: it
  returns \<open>None\<close>, whatever \<open>return_result\<close> is, and the status and body of the response
  are dropped.
\<close>

theorem invoke_non_success_returns_none:
  assumes "build_invoker_sess env cfg runtime_name memory (payload_route pl) st = (Inr sess, st1)"
    and "get_service_endpoint env cfg runtime_name memory st1 = (Inr u, st2)"
    and "http_post env sess (u @ payload_route pl) pl = Inr res"
    and "status_code res \<noteq> 200" and "status_code res \<noteq> 202"
  shows "invoke env cfg runtime_name memory pl return_result st
           = (Inr JNull, emit (HttpPost (u @ payload_route pl)) st2)"
  using assms by (simp add: invoke_def Let_def)

text \<open>The unfolding that evaluates the concrete scenarios.\<close>

lemmas demo_eval = always_status_def demo_env_def demo_cfg_def demo_service_def demo_payload_def demo_response_def
  init_state_def service_ready_def invoke_def build_invoker_sess_def get_service_endpoint_def
  api_get_service_def build_api_resource_def emit_def payload_route_def service_path_def
  format_service_name_def replace_py_def str_int_def str_nat.simps digit_char_def Let_def

theorem invoke_non_success_returns_none_witness:
  "invoke (demo_env (always_status (demo_service True)) (demo_response 404 (JStr ''not found'')))
     demo_cfg ''py39'' 256 demo_payload True init_state
   = (Inr JNull,
      \<lparr>api_resource = True,
       invoker_sess = Some \<lparr>target_audience = ''https://svc.example/''\<rparr>,
       invoker_sess_route = ''/'', service_url = Some ''https://svc.example'', gets = 1,
       calls = [BuildApiResource,
                ApiGetService ''namespaces/proj/services/lithops--2-2-5--py39--256mb'',
                LoadIdTokenCredentials ''https://svc.example/'',
                HttpPost ''https://svc.example/'']\<rparr>)"
proof -
  let ?env = "demo_env (always_status (demo_service True)) (demo_response 404 (JStr ''not found''))"
  let ?st1 = "\<lparr>api_resource = True,
       invoker_sess = Some \<lparr>target_audience = ''https://svc.example/''\<rparr>,
       invoker_sess_route = ''/'', service_url = Some ''https://svc.example'', gets = 1,
       calls = [BuildApiResource,
                ApiGetService ''namespaces/proj/services/lithops--2-2-5--py39--256mb'',
                LoadIdTokenCredentials ''https://svc.example/'']\<rparr>"
  have 1: "build_invoker_sess ?env demo_cfg ''py39'' 256 (payload_route demo_payload) init_state
             = (Inr \<lparr>target_audience = ''https://svc.example/''\<rparr>, ?st1)"
    by (simp add: demo_eval)
  have 2: "get_service_endpoint ?env demo_cfg ''py39'' 256 ?st1 = (Inr ''https://svc.example'', ?st1)"
    by (simp add: get_service_endpoint_def)
  have 3: "http_post ?env \<lparr>target_audience = ''https://svc.example/''\<rparr>
             (''https://svc.example'' @ payload_route demo_payload) demo_payload
           = Inr (demo_response 404 (JStr ''not found''))"
    by (simp add: demo_env_def)
  have 4: "status_code (demo_response 404 (JStr ''not found'')) \<noteq> 200"
          "status_code (demo_response 404 (JStr ''not found'')) \<noteq> 202"
    by (simp_all add: demo_response_def)
  show ?thesis
    using invoke_non_success_returns_none [OF 1 2 3 4, of True]
    by (simp add: emit_def payload_route_def demo_payload_def)
qed

text \<open>
  C5 as stated fails: a response with status 500 makes \<open>invoke\<close> return \<open>None\<close>, a value
  that is not an error.
\<close>

theorem invoke_non_success_counterexample:
  "status_code (demo_response 500 (JDict [(''error'', JStr ''boom'')])) \<notin> {200, 202}
   \<and> fst (invoke (demo_env (always_status (demo_service True)) (demo_response 500 (JDict [(''error'', JStr ''boom'')])))
            demo_cfg ''py39'' 256 demo_payload False init_state) = Inr JNull"
  by (simp add: demo_eval)

text \<open>
  C6 (amended). \<open>invoke\<close> never creates a service, and it has no readiness check:
  whatever the conditions of the service are, as soon as the endpoint resolves (from
  the cache or from a \<open>get\<close>) and the identity-token credentials load, the payload is
  posted to the endpoint followed by the route.
\<close>

theorem invoke_has_no_readiness_check:
  "filter is_create_call (calls (snd (invoke env cfg runtime_name memory pl return_result st)))
     = filter is_create_call (calls st)
   \<and> (\<forall>u st1. get_service_endpoint env cfg runtime_name memory st = (Inr u, st1)
         \<longrightarrow> load_id_credentials env (u @ payload_route pl) = None
         \<longrightarrow> HttpPost (u @ payload_route pl)
               \<in> set (calls (snd (invoke env cfg runtime_name memory pl return_result st))))"
  using invoke_never_creates invoke_posts by blast

theorem invoke_has_no_readiness_check_witness:
  "\<not> service_ready (demo_service False)
   \<and> filter is_create_call (calls (snd (invoke
        (demo_env (always_status (demo_service False)) (demo_response 200 (JDict [(''activationId'', JStr ''abc123'')])))
        demo_cfg ''py39'' 256 demo_payload False init_state))) = []
   \<and> HttpPost ''https://svc.example/'' \<in> set (calls (snd (invoke
        (demo_env (always_status (demo_service False)) (demo_response 200 (JDict [(''activationId'', JStr ''abc123'')])))
        demo_cfg ''py39'' 256 demo_payload False init_state)))"
proof -
  let ?env = "demo_env (always_status (demo_service False)) (demo_response 200 (JDict [(''activationId'', JStr ''abc123'')]))"
  let ?st1 = "\<lparr>api_resource = True, invoker_sess = None,
       invoker_sess_route = ''/'', service_url = Some ''https://svc.example'', gets = 1,
       calls = [BuildApiResource,
                ApiGetService ''namespaces/proj/services/lithops--2-2-5--py39--256mb'']\<rparr>"
  have 1: "get_service_endpoint ?env demo_cfg ''py39'' 256 init_state = (Inr ''https://svc.example'', ?st1)"
    by (simp add: demo_eval)
  have 2: "load_id_credentials ?env (''https://svc.example'' @ payload_route demo_payload) = None"
    by (simp add: demo_env_def)
  have 3: "\<not> service_ready (demo_service False)"
    by (simp add: demo_service_def service_ready_def)
  have 4: "payload_route demo_payload = ''/''" "calls init_state = []"
    by (simp_all add: payload_route_def demo_payload_def init_state_def)
  show ?thesis
    using invoke_has_no_readiness_check [of ?env demo_cfg "''py39''" 256 demo_payload False init_state] 1 2 3
    by (simp add: 4)
qed

text \<open>
  C6 as stated fails: on a service whose second condition is still \<open>Unknown\<close>, \<open>invoke\<close>
  resolves the endpoint, posts the payload to it and returns the activation id; no
  error is raised.
\<close>

theorem invoke_not_ready_counterexample:
  "\<not> service_ready (demo_service False)
   \<and> invoke (demo_env (always_status (demo_service False)) (demo_response 200 (JDict [(''activationId'', JStr ''abc123'')])))
        demo_cfg ''py39'' 256 demo_payload False init_state
     = (Inr (JStr ''abc123''),
        \<lparr>api_resource = True,
         invoker_sess = Some \<lparr>target_audience = ''https://svc.example/''\<rparr>,
         invoker_sess_route = ''/'', service_url = Some ''https://svc.example'', gets = 1,
         calls = [BuildApiResource,
                  ApiGetService ''namespaces/proj/services/lithops--2-2-5--py39--256mb'',
                  LoadIdTokenCredentials ''https://svc.example/'',
                  HttpPost ''https://svc.example/'']\<rparr>)"
  by (simp add: demo_eval)

section \<open>IBM VPC: teardown and the calls each step adds\<close>

lemma issue_fields [simp]:
  "vpc_calls (issue c st) = vpc_calls st @ [c]" "instance_id (issue c st) = instance_id st"
  "config_instance_id (issue c st) = config_instance_id st"
  "config_ip_address (issue c st) = config_ip_address st"
  "delete_on_dismantle (issue c st) = delete_on_dismantle st"
  "instance_data_status (issue c st) = instance_data_status st"
  "draws (issue c st) = draws st" "instance_gets (issue c st) = instance_gets st"
  by (simp_all add: issue_def)

lemma gen_name_scoped [simp]:
  "gen_name env r_type (Some j) (Some c) st
     = (''lithops'' @ py_str j @ ''-'' @ py_str c @ ''-'' @ r_type, st)"
  by (simp add: gen_name_def generate_name_def)

lemma gen_name_frame:
  "gen_name env r_type job_key call_id st = (name, st1) \<Longrightarrow>
     name = fst (generate_name (namegenerator_gen env) (draws st) r_type job_key call_id)
     \<and> st1 = st\<lparr>draws := snd (generate_name (namegenerator_gen env) (draws st) r_type job_key call_id)\<rparr>"
  by (auto simp: gen_name_def split: prod.splits)

lemma delete_floating_ips_ok:
  "\<forall>f\<in>set fips. svc_delete_floating_ip env (fip_id f) = None \<Longrightarrow>
   delete_floating_ips env fips st
     = (Inr (), st\<lparr>vpc_calls := vpc_calls st @ map (\<lambda>fip. DeleteFloatingIp (fip_id fip)) fips\<rparr>)"
  by (induction fips arbitrary: st) (simp_all add: issue_def)

lemma delete_nic_floating_ips_ok:
  "\<forall>f\<in>set (attached_floating_ips nics). svc_delete_floating_ip env (fip_id f) = None \<Longrightarrow>
   delete_nic_floating_ips env nics st
     = (Inr (), st\<lparr>vpc_calls := vpc_calls st
          @ map (\<lambda>fip. DeleteFloatingIp (fip_id fip)) (attached_floating_ips nics)\<rparr>)"
proof (induction nics arbitrary: st)
  case Nil
  then show ?case by (simp add: attached_floating_ips_def)
next
  case (Cons n nics)
  show ?case
  proof (cases "nic_floating_ips n")
    case None
    with Cons show ?thesis by (simp add: attached_floating_ips_def)
  next
    case (Some fips)
    have a: "\<forall>f\<in>set fips. svc_delete_floating_ip env (fip_id f) = None"
      and b: "\<forall>f\<in>set (attached_floating_ips nics). svc_delete_floating_ip env (fip_id f) = None"
      using Cons.prems Some by (auto simp: attached_floating_ips_def)
    show ?thesis
      using Some by (simp add: delete_floating_ips_ok [OF a] Cons.IH [OF b] attached_floating_ips_def)
  qed
qed

lemma delete_instance_ok:
  assumes "svc_list_instance_network_interfaces env (config_instance_id st) = Inr nics"
    and "\<forall>f\<in>set (attached_floating_ips nics). svc_delete_floating_ip env (fip_id f) = None"
    and "svc_delete_instance env (config_instance_id st) = None"
  shows "delete_instance env st
     = (Inr (), st\<lparr>vpc_calls := vpc_calls st @ teardown_calls (config_instance_id st) nics\<rparr>)"
  using assms(1,3)
  by (simp add: delete_instance_def Let_def delete_nic_floating_ips_ok [OF assms(2)]
        teardown_calls_def issue_def)

lemma delete_floating_ips_frame:
  "delete_floating_ips env fips st = (r, st1) \<Longrightarrow>
     filter is_create_instance (vpc_calls st1) = filter is_create_instance (vpc_calls st)
     \<and> instance_id st1 = instance_id st \<and> config_instance_id st1 = config_instance_id st"
  by (induction fips arbitrary: st) (auto simp: Let_def split: option.splits)

lemma delete_nic_floating_ips_frame:
  "delete_nic_floating_ips env nics st = (r, st1) \<Longrightarrow>
     filter is_create_instance (vpc_calls st1) = filter is_create_instance (vpc_calls st)
     \<and> instance_id st1 = instance_id st \<and> config_instance_id st1 = config_instance_id st"
proof (induction nics arbitrary: st)
  case Nil
  then show ?case by simp
next
  case (Cons n nics)
  show ?case
  proof (cases "nic_floating_ips n")
    case None
    with Cons show ?thesis by simp
  next
    case (Some fips)
    obtain r2 st2 where d: "delete_floating_ips env fips st = (r2, st2)"
      by (cases "delete_floating_ips env fips st")
    note f = delete_floating_ips_frame [OF d]
    show ?thesis
    proof (cases r2)
      case (Inl e)
      with Cons.prems Some d f show ?thesis by simp
    next
      case (Inr u)
      with Cons.prems Some d have "delete_nic_floating_ips env nics st2 = (r, st1)" by simp
      from Cons.IH [OF this] f show ?thesis by simp
    qed
  qed
qed

lemma delete_instance_frame:
  "delete_instance env st = (r, st1) \<Longrightarrow>
     filter is_create_instance (vpc_calls st1) = filter is_create_instance (vpc_calls st)
     \<and> instance_id st1 = instance_id st \<and> config_instance_id st1 = config_instance_id st"
proof -
  assume a: "delete_instance env st = (r, st1)"
  let ?st0 = "issue (ListInstanceNetworkInterfaces (config_instance_id st)) st"
  show ?thesis
  proof (cases "svc_list_instance_network_interfaces env (config_instance_id st)")
    case (Inl e)
    with a show ?thesis by (auto simp: delete_instance_def Let_def)
  next
    case (Inr nics)
    obtain r2 st2 where d: "delete_nic_floating_ips env nics ?st0 = (r2, st2)"
      by (cases "delete_nic_floating_ips env nics ?st0")
    note f = delete_nic_floating_ips_frame [OF d]
    from a Inr d f show ?thesis
      by (auto simp: delete_instance_def Let_def split: sum.splits option.splits)
  qed
qed

lemma create_and_attach_frame:
  "create_and_attach_floating_ip env inst job_key call_id st = (r, st1) \<Longrightarrow>
     filter is_create_instance (vpc_calls st1) = filter is_create_instance (vpc_calls st)
     \<and> instance_id st1 = instance_id st \<and> config_instance_id st1 = config_instance_id st"
  by (auto simp: create_and_attach_floating_ip_def Let_def gen_name_def
       split: prod.splits sum.splits option.splits if_splits list.splits)

section \<open>IBM VPC: the floating IP and the rollback of create\<close>

lemma find_floating_ip_none:
  "\<forall>v\<in>set vips. fip_name v \<noteq> name \<Longrightarrow> find_floating_ip name vips acc = acc"
  by (induction vips arbitrary: acc) simp_all

lemma find_floating_ip_append:
  "find_floating_ip name (pre @ post) acc = find_floating_ip name post (find_floating_ip name pre acc)"
  by (induction pre arbitrary: acc) simp_all

lemma find_floating_ip_last:
  "fip_name vip = name \<Longrightarrow> \<forall>v\<in>set post. fip_name v \<noteq> name \<Longrightarrow>
   find_floating_ip name (pre @ vip # post) acc = Some vip"
  by (simp add: find_floating_ip_append find_floating_ip_none)

lemma attach_floating_ip_last_match:
  assumes "svc_list_floating_ips env = Inr (pre @ vip # post)"
    and "fip_name vip = fst (generate_name (namegenerator_gen env) (draws st) ''fip'' job_key call_id)"
    and "\<forall>v\<in>set post. fip_name v \<noteq> fip_name vip"
    and "fip_target vip = Some t"
    and "target_id t = ni_id (primary_network_interface inst)"
    and "target_primary_ipv4_address t = ni_primary_ipv4_address (primary_network_interface inst)"
  shows "create_and_attach_floating_ip env inst job_key call_id st
           = (Inr (fip_address vip),
              st\<lparr>draws := snd (generate_name (namegenerator_gen env) (draws st) ''fip'' job_key call_id),
                 vpc_calls := vpc_calls st @ [ListFloatingIps]\<rparr>)"
proof -
  obtain name k where g: "generate_name (namegenerator_gen env) (draws st) ''fip'' job_key call_id = (name, k)"
    by (cases "generate_name (namegenerator_gen env) (draws st) ''fip'' job_key call_id")
  have n: "fip_name vip = name" using assms(2) g by simp
  have f: "find_floating_ip name (pre @ vip # post) None = Some vip"
    using find_floating_ip_last [OF n] assms(3) n by simp
  have a: "already_attached vip (primary_network_interface inst)"
    using assms(4,5,6) by (simp add: already_attached_def)
  show ?thesis
    using assms(1) g f a
    by (simp add: create_and_attach_floating_ip_def gen_name_def Let_def issue_def)
qed

text \<open>The unfolding that evaluates the concrete VPC scenarios.\<close>

lemmas vpc_eval = demo_vpc_env_def demo_vpc_state_def demo_vsi_def demo_fip_def no_fip_env_def
  demo_nics_def demo_job_def demo_call_def demo_target_def
  create_def create_vsi_def create_instance_def create_and_attach_floating_ip_def
  delete_instance_def gen_name_def generate_name_def issue_def already_attached_def
  str_int_def str_nat.simps digit_char_def Let_def

text \<open>
  C7. Attaching the floating IP is idempotent. Floating-IP names are unique within a
  region, so a listing holds at most one floating IP of a name. For every instance and
  every such listing that contains a floating IP with the derived name whose target is
  the primary network interface of the instance (same id, same primary IPv4 address),
  \<open>_create_and_attach_floating_ip\<close> only lists the floating IPs: it allocates none,
  attaches none, and returns the address of the existing one.
\<close>

theorem attach_floating_ip_idempotent:
  assumes "svc_list_floating_ips env = Inr fips"
    and "distinct (map fip_name fips)"
    and "vip \<in> set fips"
    and "fip_name vip = fst (generate_name (namegenerator_gen env) (draws st) ''fip'' job_key call_id)"
    and "fip_target vip = Some t"
    and "target_id t = ni_id (primary_network_interface inst)"
    and "target_primary_ipv4_address t = ni_primary_ipv4_address (primary_network_interface inst)"
  shows "create_and_attach_floating_ip env inst job_key call_id st
           = (Inr (fip_address vip),
              st\<lparr>draws := snd (generate_name (namegenerator_gen env) (draws st) ''fip'' job_key call_id),
                 vpc_calls := vpc_calls st @ [ListFloatingIps]\<rparr>)"
proof -
  from assms(3) obtain pre post where sp: "fips = pre @ vip # post"
    by (auto dest: split_list)
  have later: "\<forall>v\<in>set post. fip_name v \<noteq> fip_name vip"
  proof
    fix v assume v: "v \<in> set post"
    from assms(2) sp have "fip_name vip \<notin> set (map fip_name post)" by simp
    with v show "fip_name v \<noteq> fip_name vip" by (metis image_eqI set_map)
  qed
  show ?thesis
    by (rule attach_floating_ip_last_match [OF _ assms(4) later assms(5,6,7)])
       (simp add: assms(1) sp)
qed

theorem attach_floating_ip_idempotent_witness:
  "create_and_attach_floating_ip
     (demo_vpc_env [] [demo_fip ''f0'' ''other'' None, demo_fip ''f1'' ''lithops7-3-fip'' (Some demo_target)] [])
     (demo_vsi ''lithops7-3-instance'') demo_job demo_call (demo_vpc_state True)
   = (Inr ''169.1.2.3'', (demo_vpc_state True)\<lparr>vpc_calls := [ListFloatingIps]\<rparr>)"
proof -
  let ?env = "demo_vpc_env [] [demo_fip ''f0'' ''other'' None, demo_fip ''f1'' ''lithops7-3-fip'' (Some demo_target)] []"
  have 1: "svc_list_floating_ips ?env
             = Inr [demo_fip ''f0'' ''other'' None, demo_fip ''f1'' ''lithops7-3-fip'' (Some demo_target)]"
    by (simp add: demo_vpc_env_def)
  have 2: "distinct (map fip_name [demo_fip ''f0'' ''other'' None,
                                    demo_fip ''f1'' ''lithops7-3-fip'' (Some demo_target)])"
    by (simp add: demo_fip_def)
  have 3: "demo_fip ''f1'' ''lithops7-3-fip'' (Some demo_target)
             \<in> set [demo_fip ''f0'' ''other'' None, demo_fip ''f1'' ''lithops7-3-fip'' (Some demo_target)]"
    by simp
  have 4: "fip_name (demo_fip ''f1'' ''lithops7-3-fip'' (Some demo_target))
        = fst (generate_name (namegenerator_gen ?env) (draws (demo_vpc_state True)) ''fip'' demo_job demo_call)"
    by (simp add: vpc_eval)
  have 5: "fip_target (demo_fip ''f1'' ''lithops7-3-fip'' (Some demo_target)) = Some demo_target"
    by (simp add: demo_fip_def)
  have 6: "target_id demo_target = ni_id (primary_network_interface (demo_vsi ''lithops7-3-instance''))"
    "target_primary_ipv4_address demo_target
       = ni_primary_ipv4_address (primary_network_interface (demo_vsi ''lithops7-3-instance''))"
    by (simp_all add: demo_target_def demo_vsi_def)
  show ?thesis
    using attach_floating_ip_idempotent [OF 1 2 3 4 5 6]
    by (simp add: demo_fip_def demo_vpc_state_def generate_name_def demo_job_def demo_call_def)
qed

lemma create_vsi_created:
  "create_vsi env job_key call_id st = (Inr (False, inst), s1) \<Longrightarrow>
     config_instance_id s1 = Some (inst_id inst) \<and> instance_id s1 = Some (inst_id inst)"
  by (auto simp: create_vsi_def Let_def split: sum.splits prod.splits bool.splits option.splits if_splits)

text \<open>
  C4 (amended). When \<open>create\<close> has created the instance and
  \<open>_create_and_attach_floating_ip\<close> raises \<open>e\<close>, and the calls of \<open>_delete_instance\<close> all
  return (the listing of the interfaces of the new instance, the release of each of
  their floating IPs, the deletion of the instance), then \<open>create\<close> issues exactly those
  calls for the instance it created, in that order, and raises \<open>e\<close> again.
\<close>

theorem create_rolls_back_instance:
  assumes "create_vsi env job_key call_id st = (Inr (False, inst), s1)"
    and "create_and_attach_floating_ip env inst job_key call_id s1 = (Inl e, s2)"
    and "svc_list_instance_network_interfaces env (Some (inst_id inst)) = Inr nics"
    and "\<forall>f\<in>set (attached_floating_ips nics). svc_delete_floating_ip env (fip_id f) = None"
    and "svc_delete_instance env (Some (inst_id inst)) = None"
  shows "create env job_key call_id st
           = (Inl e, s2\<lparr>vpc_calls := vpc_calls s2 @ teardown_calls (Some (inst_id inst)) nics\<rparr>)"
proof -
  have c1: "config_instance_id s1 = Some (inst_id inst)"
    using create_vsi_created [OF assms(1)] by simp
  have c2: "config_instance_id s2 = Some (inst_id inst)"
    using create_and_attach_frame [OF assms(2)] c1 by simp
  have d: "delete_instance env s2
     = (Inr (), s2\<lparr>vpc_calls := vpc_calls s2 @ teardown_calls (config_instance_id s2) nics\<rparr>)"
    by (rule delete_instance_ok) (simp_all add: c2 assms(3,4,5))
  show ?thesis
    by (simp add: create_def assms(1,2) d c2)
qed

theorem create_rolls_back_instance_witness:
  "create (no_fip_env (Inr demo_nics)) demo_job demo_call (demo_vpc_state True)
   = (Inl (ApiException ''quota''),
      (demo_vpc_state True)\<lparr>instance_id := Some ''id-lithops7-3-instance'',
         config_instance_id := Some ''id-lithops7-3-instance'',
         vpc_calls := [ListInstances,
           CreateInstance ''lithops7-3-instance'' ''lithops7-3-boot'' ''lithops7-3-volume'',
           ListFloatingIps, CreateFloatingIp ''lithops7-3-fip'',
           ListInstanceNetworkInterfaces (Some ''id-lithops7-3-instance''),
           DeleteFloatingIp ''f1'', DeleteFloatingIp ''f2'',
           DeleteInstance (Some ''id-lithops7-3-instance'')]\<rparr>)"
proof -
  let ?env = "no_fip_env (Inr demo_nics)"
  let ?s1 = "(demo_vpc_state True)\<lparr>instance_id := Some ''id-lithops7-3-instance'',
         config_instance_id := Some ''id-lithops7-3-instance'',
         vpc_calls := [ListInstances,
           CreateInstance ''lithops7-3-instance'' ''lithops7-3-boot'' ''lithops7-3-volume'']\<rparr>"
  let ?s2 = "?s1\<lparr>vpc_calls := [ListInstances,
           CreateInstance ''lithops7-3-instance'' ''lithops7-3-boot'' ''lithops7-3-volume'',
           ListFloatingIps, CreateFloatingIp ''lithops7-3-fip'']\<rparr>"
  have 1: "create_vsi ?env demo_job demo_call (demo_vpc_state True)
             = (Inr (False, demo_vsi ''lithops7-3-instance''), ?s1)"
    by (simp add: vpc_eval)
  have 2: "create_and_attach_floating_ip ?env (demo_vsi ''lithops7-3-instance'') demo_job demo_call ?s1
             = (Inl (ApiException ''quota''), ?s2)"
    by (simp add: vpc_eval)
  have 3: "svc_list_instance_network_interfaces ?env (Some (inst_id (demo_vsi ''lithops7-3-instance'')))
             = Inr demo_nics"
    by (simp add: no_fip_env_def)
  have 4: "\<forall>f\<in>set (attached_floating_ips demo_nics). svc_delete_floating_ip ?env (fip_id f) = None"
    by (simp add: no_fip_env_def demo_vpc_env_def)
  have 5: "svc_delete_instance ?env (Some (inst_id (demo_vsi ''lithops7-3-instance''))) = None"
    by (simp add: no_fip_env_def demo_vpc_env_def)
  show ?thesis
    using create_rolls_back_instance [OF 1 2 3 4 5]
    by (simp add: teardown_calls_def attached_floating_ips_def demo_nics_def demo_fip_def
          demo_vsi_def demo_vpc_state_def)
qed

text \<open>
  C4 as stated fails when \<open>_delete_instance\<close> raises itself: the allocation of the
  floating IP fails with \<open>quota\<close>, the listing of the interfaces then fails with
  \<open>down\<close>, and \<open>create\<close> raises \<open>down\<close> without having deleted the instance.
\<close>

theorem create_rollback_failure_counterexample:
  "fst (create_and_attach_floating_ip (no_fip_env (Inl ''down'')) (demo_vsi ''lithops7-3-instance'')
          demo_job demo_call (demo_vpc_state True)) = Inl (ApiException ''quota'')
   \<and> create (no_fip_env (Inl ''down'')) demo_job demo_call (demo_vpc_state True)
     = (Inl (ApiException ''down''),
        (demo_vpc_state True)\<lparr>instance_id := Some ''id-lithops7-3-instance'',
           config_instance_id := Some ''id-lithops7-3-instance'',
           vpc_calls := [ListInstances,
             CreateInstance ''lithops7-3-instance'' ''lithops7-3-boot'' ''lithops7-3-volume'',
             ListFloatingIps, CreateFloatingIp ''lithops7-3-fip'',
             ListInstanceNetworkInterfaces (Some ''id-lithops7-3-instance'')]\<rparr>)"
  by (simp add: vpc_eval)

section \<open>IBM VPC: create adopts an existing instance\<close>

lemma find_vsi_loop_var:
  "fst (snd (find_vsi env job_key call_id insts (ex, lv, st)))
     = (if insts = [] then lv else Some (last insts))"
  by (induction insts arbitrary: ex lv st) (auto simp: Let_def split: prod.splits)

lemma find_vsi_scoped:
  "find_vsi env (Some j) (Some c) insts (ex, lv, st) = (ex', lv', st') \<Longrightarrow>
     ex' = (ex \<or> (\<exists>i\<in>set insts. inst_name i = ''lithops'' @ py_str j @ ''-'' @ py_str c @ ''-instance''))
     \<and> vpc_calls st' = vpc_calls st \<and> config_instance_id st' = config_instance_id st
     \<and> draws st' = draws st
     \<and> ((\<exists>i\<in>set insts. inst_name i = ''lithops'' @ py_str j @ ''-'' @ py_str c @ ''-instance'')
          \<longrightarrow> (\<exists>i\<in>set insts. inst_name i = ''lithops'' @ py_str j @ ''-'' @ py_str c @ ''-instance''
                   \<and> instance_id st' = Some (inst_id i)))
     \<and> ((\<forall>i\<in>set insts. inst_name i \<noteq> ''lithops'' @ py_str j @ ''-'' @ py_str c @ ''-instance'')
          \<longrightarrow> st' = st)"
proof (induction insts arbitrary: ex lv st)
  case Nil
  then show ?case by simp
next
  case (Cons i rest)
  let ?N = "''lithops'' @ py_str j @ ''-'' @ py_str c @ ''-instance''"
  show ?case
  proof (cases "inst_name i = ?N")
    case True
    with Cons.prems have r: "find_vsi env (Some j) (Some c) rest
        (True, Some i, st\<lparr>instance_id := Some (inst_id i)\<rparr>) = (ex', lv', st')"
      by simp
    note ih = Cons.IH [OF r]
    show ?thesis
    proof (cases "\<exists>k\<in>set rest. inst_name k = ?N")
      case True
      with ih \<open>inst_name i = ?N\<close> show ?thesis by auto
    next
      case False
      with ih have "st' = st\<lparr>instance_id := Some (inst_id i)\<rparr>" by blast
      then show ?thesis using ih \<open>inst_name i = ?N\<close> by auto
    qed
  next
    case False
    with Cons.prems have r: "find_vsi env (Some j) (Some c) rest (ex, Some i, st) = (ex', lv', st')"
      by simp
    note ih = Cons.IH [OF r]
    with False show ?thesis by auto
  qed
qed


lemma create_after_vsi:
  assumes "create_vsi env job_key call_id st = (Inr (b, inst), s)"
  shows "filter is_create_instance (vpc_calls (snd (create env job_key call_id st)))
           = filter is_create_instance (vpc_calls s)
       \<and> instance_id (snd (create env job_key call_id st)) = instance_id s"
proof -
  obtain r s1 where ca: "create_and_attach_floating_ip env inst job_key call_id s = (r, s1)"
    by (cases "create_and_attach_floating_ip env inst job_key call_id s")
  note f = create_and_attach_frame [OF ca]
  show ?thesis
  proof (cases r)
    case (Inr a)
    with f assms ca show ?thesis by (simp add: create_def)
  next
    case (Inl e)
    obtain r4 s4 where d: "delete_instance env s1 = (r4, s4)" by (cases "delete_instance env s1")
    from delete_instance_frame [OF d] f Inl d assms ca
    show ?thesis by (cases r4) (simp_all add: create_def)
  qed
qed

lemma create_instance_calls_scoped:
  assumes "svc_list_instances env = Inr insts"
  shows "((\<exists>i\<in>set insts. inst_name i
              = fst (generate_name (namegenerator_gen env) (draws st) ''instance'' (Some j) (Some c)))
          \<longrightarrow> filter is_create_instance (vpc_calls (snd (create env (Some j) (Some c) st)))
                = filter is_create_instance (vpc_calls st)
              \<and> (\<exists>i\<in>set insts. inst_name i
                    = fst (generate_name (namegenerator_gen env) (draws st) ''instance'' (Some j) (Some c))
                  \<and> instance_id (snd (create env (Some j) (Some c) st)) = Some (inst_id i)))
       \<and> ((\<forall>i\<in>set insts. inst_name i
              \<noteq> fst (generate_name (namegenerator_gen env) (draws st) ''instance'' (Some j) (Some c)))
          \<longrightarrow> filter is_create_instance (vpc_calls (snd (create env (Some j) (Some c) st)))
                = filter is_create_instance (vpc_calls st)
                  @ [CreateInstance
                       (fst (generate_name (namegenerator_gen env) (draws st) ''instance'' (Some j) (Some c)))
                       (fst (generate_name (namegenerator_gen env) (draws st) ''boot'' (Some j) (Some c)))
                       (fst (generate_name (namegenerator_gen env) (draws st) ''volume'' (Some j) (Some c)))])"
proof -
  let ?N = "''lithops'' @ py_str j @ ''-'' @ py_str c @ ''-instance''"
  let ?B = "''lithops'' @ py_str j @ ''-'' @ py_str c @ ''-boot''"
  let ?V = "''lithops'' @ py_str j @ ''-'' @ py_str c @ ''-volume''"
  let ?s1 = "issue ListInstances (st\<lparr>instance_id := None\<rparr>)"
  have names: "fst (generate_name (namegenerator_gen env) (draws st) ''instance'' (Some j) (Some c)) = ?N"
    "fst (generate_name (namegenerator_gen env) (draws st) ''boot'' (Some j) (Some c)) = ?B"
    "fst (generate_name (namegenerator_gen env) (draws st) ''volume'' (Some j) (Some c)) = ?V"
    by (simp_all add: generate_name_def)
  obtain ex lv s2 where fv: "find_vsi env (Some j) (Some c) insts (False, None, ?s1) = (ex, lv, s2)"
    by (cases "find_vsi env (Some j) (Some c) insts (False, None, ?s1)") auto
  note sc = find_vsi_scoped [OF fv]
  have lvv: "lv = (if insts = [] then None else Some (last insts))"
    using find_vsi_loop_var [of env "Some j" "Some c" insts False None ?s1] fv by simp
  have A: "(\<exists>i\<in>set insts. inst_name i = ?N)
          \<longrightarrow> filter is_create_instance (vpc_calls (snd (create env (Some j) (Some c) st)))
                = filter is_create_instance (vpc_calls st)
              \<and> (\<exists>i\<in>set insts. inst_name i = ?N
                  \<and> instance_id (snd (create env (Some j) (Some c) st)) = Some (inst_id i))"
  proof
    assume m: "\<exists>i\<in>set insts. inst_name i = ?N"
    then have ne: "insts \<noteq> []" by auto
    from sc m have ex: "ex" by simp
    from sc have c2: "vpc_calls s2 = vpc_calls st @ [ListInstances]" by simp
    from sc m obtain i where i: "i \<in> set insts" "inst_name i = ?N" "instance_id s2 = Some (inst_id i)"
      by blast
    have cv: "create_vsi env (Some j) (Some c) st = (Inr (True, last insts), s2)"
      using assms fv ex lvv ne by (simp add: create_vsi_def Let_def)
    from create_after_vsi [OF cv] c2 i
    show "filter is_create_instance (vpc_calls (snd (create env (Some j) (Some c) st)))
                = filter is_create_instance (vpc_calls st)
              \<and> (\<exists>i\<in>set insts. inst_name i = ?N
                  \<and> instance_id (snd (create env (Some j) (Some c) st)) = Some (inst_id i))"
      by auto
  qed
  have B: "(\<forall>i\<in>set insts. inst_name i \<noteq> ?N)
          \<longrightarrow> filter is_create_instance (vpc_calls (snd (create env (Some j) (Some c) st)))
                = filter is_create_instance (vpc_calls st) @ [CreateInstance ?N ?B ?V]"
  proof
    assume m: "\<forall>i\<in>set insts. inst_name i \<noteq> ?N"
    from sc m have ex: "\<not> ex" and s2: "s2 = ?s1" by auto
    let ?s3 = "issue (CreateInstance ?N ?B ?V) ?s1"
    have f3: "filter is_create_instance (vpc_calls ?s3)
                = filter is_create_instance (vpc_calls st) @ [CreateInstance ?N ?B ?V]"
      by simp
    show "filter is_create_instance (vpc_calls (snd (create env (Some j) (Some c) st)))
                = filter is_create_instance (vpc_calls st) @ [CreateInstance ?N ?B ?V]"
    proof (cases "svc_create_instance env ?N")
      case (Inl e)
      then have "create env (Some j) (Some c) st = (Inl (ApiException e), ?s3)"
        using assms fv ex s2 by (simp add: create_def create_vsi_def create_instance_def Let_def)
      with f3 show ?thesis by simp
    next
      case (Inr inst)
      let ?s4 = "?s3\<lparr>instance_id := Some (inst_id inst), config_instance_id := Some (inst_id inst)\<rparr>"
      have cv: "create_vsi env (Some j) (Some c) st = (Inr (False, inst), ?s4)"
        using assms fv ex s2 Inr by (simp add: create_vsi_def create_instance_def Let_def)
      from create_after_vsi [OF cv] show ?thesis by simp
    qed
  qed
  from A B show ?thesis unfolding names by blast
qed

text \<open>
  C1. For a job/call-scoped identity and every listing of instances: when an instance
  with the derived name exists, \<open>create\<close> issues no instance-creation call, on any of
  its paths, and \<open>self.instance_id\<close> ends as the id of a listed instance with that name;
  when none exists, \<open>create\<close> issues exactly one instance-creation call, for the derived
  names. So an instance is created only when no instance with the derived name exists,
  and a second \<open>create\<close> for the same identity, run when the listing shows an instance
  of that name, leaves the number of creations at one.
\<close>

theorem create_adopts_existing_instance:
  assumes "svc_list_instances env = Inr insts"
  shows "((\<exists>i\<in>set insts. inst_name i
              = fst (generate_name (namegenerator_gen env) (draws st) ''instance'' (Some j) (Some c)))
          \<longrightarrow> filter is_create_instance (vpc_calls (snd (create env (Some j) (Some c) st)))
                = filter is_create_instance (vpc_calls st)
              \<and> (\<exists>i\<in>set insts. inst_name i
                    = fst (generate_name (namegenerator_gen env) (draws st) ''instance'' (Some j) (Some c))
                  \<and> instance_id (snd (create env (Some j) (Some c) st)) = Some (inst_id i)))
       \<and> ((\<forall>i\<in>set insts. inst_name i
              \<noteq> fst (generate_name (namegenerator_gen env) (draws st) ''instance'' (Some j) (Some c)))
          \<longrightarrow> filter is_create_instance (vpc_calls (snd (create env (Some j) (Some c) st)))
                = filter is_create_instance (vpc_calls st)
                  @ [CreateInstance
                       (fst (generate_name (namegenerator_gen env) (draws st) ''instance'' (Some j) (Some c)))
                       (fst (generate_name (namegenerator_gen env) (draws st) ''boot'' (Some j) (Some c)))
                       (fst (generate_name (namegenerator_gen env) (draws st) ''volume'' (Some j) (Some c)))])
       \<and> ((\<forall>i\<in>set insts. inst_name i
              \<noteq> fst (generate_name (namegenerator_gen env) (draws st) ''instance'' (Some j) (Some c)))
          \<longrightarrow> svc_list_instances env2 = Inr insts2
          \<longrightarrow> (\<exists>i\<in>set insts2. inst_name i
                 = fst (generate_name (namegenerator_gen env) (draws st) ''instance'' (Some j) (Some c)))
          \<longrightarrow> filter is_create_instance
                 (vpc_calls (snd (create env2 (Some j) (Some c) (snd (create env (Some j) (Some c) st)))))
                = filter is_create_instance (vpc_calls st)
                  @ [CreateInstance
                       (fst (generate_name (namegenerator_gen env) (draws st) ''instance'' (Some j) (Some c)))
                       (fst (generate_name (namegenerator_gen env) (draws st) ''boot'' (Some j) (Some c)))
                       (fst (generate_name (namegenerator_gen env) (draws st) ''volume'' (Some j) (Some c)))])"
proof (intro conjI)
  note one = create_instance_calls_scoped [OF assms, of st j c]
  from one show "(\<exists>i\<in>set insts. inst_name i
              = fst (generate_name (namegenerator_gen env) (draws st) ''instance'' (Some j) (Some c)))
          \<longrightarrow> filter is_create_instance (vpc_calls (snd (create env (Some j) (Some c) st)))
                = filter is_create_instance (vpc_calls st)
              \<and> (\<exists>i\<in>set insts. inst_name i
                    = fst (generate_name (namegenerator_gen env) (draws st) ''instance'' (Some j) (Some c))
                  \<and> instance_id (snd (create env (Some j) (Some c) st)) = Some (inst_id i))"
    by blast
  from one show "(\<forall>i\<in>set insts. inst_name i
              \<noteq> fst (generate_name (namegenerator_gen env) (draws st) ''instance'' (Some j) (Some c)))
          \<longrightarrow> filter is_create_instance (vpc_calls (snd (create env (Some j) (Some c) st)))
                = filter is_create_instance (vpc_calls st)
                  @ [CreateInstance
                       (fst (generate_name (namegenerator_gen env) (draws st) ''instance'' (Some j) (Some c)))
                       (fst (generate_name (namegenerator_gen env) (draws st) ''boot'' (Some j) (Some c)))
                       (fst (generate_name (namegenerator_gen env) (draws st) ''volume'' (Some j) (Some c)))]"
    by blast
  show "(\<forall>i\<in>set insts. inst_name i
              \<noteq> fst (generate_name (namegenerator_gen env) (draws st) ''instance'' (Some j) (Some c)))
          \<longrightarrow> svc_list_instances env2 = Inr insts2
          \<longrightarrow> (\<exists>i\<in>set insts2. inst_name i
                 = fst (generate_name (namegenerator_gen env) (draws st) ''instance'' (Some j) (Some c)))
          \<longrightarrow> filter is_create_instance
                 (vpc_calls (snd (create env2 (Some j) (Some c) (snd (create env (Some j) (Some c) st)))))
                = filter is_create_instance (vpc_calls st)
                  @ [CreateInstance
                       (fst (generate_name (namegenerator_gen env) (draws st) ''instance'' (Some j) (Some c)))
                       (fst (generate_name (namegenerator_gen env) (draws st) ''boot'' (Some j) (Some c)))
                       (fst (generate_name (namegenerator_gen env) (draws st) ''volume'' (Some j) (Some c)))]"
  proof (intro impI)
    assume none: "\<forall>i\<in>set insts. inst_name i
              \<noteq> fst (generate_name (namegenerator_gen env) (draws st) ''instance'' (Some j) (Some c))"
      and l2: "svc_list_instances env2 = Inr insts2"
      and some: "\<exists>i\<in>set insts2. inst_name i
                 = fst (generate_name (namegenerator_gen env) (draws st) ''instance'' (Some j) (Some c))"
    let ?st1 = "snd (create env (Some j) (Some c) st)"
    have same: "fst (generate_name (namegenerator_gen env2) (draws ?st1) ''instance'' (Some j) (Some c))
                  = fst (generate_name (namegenerator_gen env) (draws st) ''instance'' (Some j) (Some c))"
      by (simp add: generate_name_def)
    from create_instance_calls_scoped [OF l2, of ?st1 j c] some
    have "filter is_create_instance (vpc_calls (snd (create env2 (Some j) (Some c) ?st1)))
            = filter is_create_instance (vpc_calls ?st1)"
      unfolding same by blast
    with one none show "filter is_create_instance
                 (vpc_calls (snd (create env2 (Some j) (Some c) ?st1)))
                = filter is_create_instance (vpc_calls st)
                  @ [CreateInstance
                       (fst (generate_name (namegenerator_gen env) (draws st) ''instance'' (Some j) (Some c)))
                       (fst (generate_name (namegenerator_gen env) (draws st) ''boot'' (Some j) (Some c)))
                       (fst (generate_name (namegenerator_gen env) (draws st) ''volume'' (Some j) (Some c)))]"
      by simp
  qed
qed

theorem create_adopts_existing_instance_witness:
  "filter is_create_instance (vpc_calls (snd (create
       (demo_vpc_env [demo_vsi ''other'', demo_vsi ''lithops7-3-instance''] [] [])
       (Some (PyInt 7)) (Some (PyInt 3)) (demo_vpc_state True)))) = []
   \<and> instance_id (snd (create
       (demo_vpc_env [demo_vsi ''other'', demo_vsi ''lithops7-3-instance''] [] [])
       (Some (PyInt 7)) (Some (PyInt 3)) (demo_vpc_state True))) = Some ''id-lithops7-3-instance''
   \<and> filter is_create_instance (vpc_calls (snd (create
       (demo_vpc_env [demo_vsi ''other''] [] [])
       (Some (PyInt 7)) (Some (PyInt 3)) (demo_vpc_state True))))
     = [CreateInstance ''lithops7-3-instance'' ''lithops7-3-boot'' ''lithops7-3-volume'']
   \<and> filter is_create_instance (vpc_calls (snd (create
       (demo_vpc_env [demo_vsi ''other'', demo_vsi ''lithops7-3-instance''] [] [])
       (Some (PyInt 7)) (Some (PyInt 3))
       (snd (create (demo_vpc_env [demo_vsi ''other''] [] [])
               (Some (PyInt 7)) (Some (PyInt 3)) (demo_vpc_state True))))))
     = [CreateInstance ''lithops7-3-instance'' ''lithops7-3-boot'' ''lithops7-3-volume'']"
proof -
  let ?envA = "demo_vpc_env [demo_vsi ''other'', demo_vsi ''lithops7-3-instance''] [] []"
  let ?envB = "demo_vpc_env [demo_vsi ''other''] [] []"
  let ?st = "demo_vpc_state True"
  have s: "str_int 7 = ''7''" "str_int 3 = ''3''"
    by (simp_all add: str_int_def str_nat.simps digit_char_def)
  have n: "\<And>g k r. fst (generate_name g k r (Some (PyInt 7)) (Some (PyInt 3))) = ''lithops7-3-'' @ r"
    by (simp add: generate_name_def s)
  have a: "svc_list_instances ?envA = Inr [demo_vsi ''other'', demo_vsi ''lithops7-3-instance'']"
    and b: "svc_list_instances ?envB = Inr [demo_vsi ''other'']"
    by (simp_all add: demo_vpc_env_def)
  have ex: "\<exists>i\<in>set [demo_vsi ''other'', demo_vsi ''lithops7-3-instance''].
              inst_name i = ''lithops7-3-'' @ ''instance''"
    and no: "\<forall>i\<in>set [demo_vsi ''other'']. inst_name i \<noteq> ''lithops7-3-'' @ ''instance''"
    by (simp_all add: demo_vsi_def)
  have e: "vpc_calls ?st = []" by (simp add: demo_vpc_state_def)
  note tA = create_adopts_existing_instance [OF a, of ?st "PyInt 7" "PyInt 3", unfolded n]
  note tB = create_adopts_existing_instance [OF b, of ?st "PyInt 7" "PyInt 3" ?envA
              "[demo_vsi ''other'', demo_vsi ''lithops7-3-instance'']", unfolded n]
  from tA ex have A1: "filter is_create_instance
        (vpc_calls (snd (create ?envA (Some (PyInt 7)) (Some (PyInt 3)) ?st)))
        = filter is_create_instance (vpc_calls ?st)"
    and A2: "\<exists>i\<in>set [demo_vsi ''other'', demo_vsi ''lithops7-3-instance''].
        inst_name i = ''lithops7-3-'' @ ''instance''
        \<and> instance_id (snd (create ?envA (Some (PyInt 7)) (Some (PyInt 3)) ?st)) = Some (inst_id i)"
    by blast+
  from A2 have A3: "instance_id (snd (create ?envA (Some (PyInt 7)) (Some (PyInt 3)) ?st))
                      = Some ''id-lithops7-3-instance''"
    by (auto simp: demo_vsi_def)
  from tB no have B1: "filter is_create_instance
        (vpc_calls (snd (create ?envB (Some (PyInt 7)) (Some (PyInt 3)) ?st)))
        = filter is_create_instance (vpc_calls ?st)
          @ [CreateInstance (''lithops7-3-'' @ ''instance'') (''lithops7-3-'' @ ''boot'')
               (''lithops7-3-'' @ ''volume'')]"
    by blast
  from tB no a ex have B2: "filter is_create_instance
        (vpc_calls (snd (create ?envA (Some (PyInt 7)) (Some (PyInt 3))
           (snd (create ?envB (Some (PyInt 7)) (Some (PyInt 3)) ?st)))))
        = filter is_create_instance (vpc_calls ?st)
          @ [CreateInstance (''lithops7-3-'' @ ''instance'') (''lithops7-3-'' @ ''boot'')
               (''lithops7-3-'' @ ''volume'')]"
    by blast
  from A1 A3 B1 B2 show ?thesis by (simp add: e)
qed

section \<open>IBM VPC: names of a partially specified identity\<close>

lemma gen_name_random:
  "job_key = None \<or> call_id = None \<Longrightarrow>
   gen_name env r_type job_key call_id st
     = (''lithops-'' @ namegenerator_gen env (draws st) @ ''-'' @ r_type, st\<lparr>draws := Suc (draws st)\<rparr>)"
  by (auto simp: gen_name_def generate_name_def split: option.splits)

lemma find_vsi_random:
  "job_key = None \<or> call_id = None \<Longrightarrow>
   \<forall>idx<length insts. inst_name (insts ! idx)
        \<noteq> ''lithops-'' @ namegenerator_gen env (draws st + idx) @ ''-instance'' \<Longrightarrow>
   find_vsi env job_key call_id insts (ex, lv, st)
     = (ex, if insts = [] then lv else Some (last insts), st\<lparr>draws := draws st + length insts\<rparr>)"
proof (induction insts arbitrary: lv st)
  case Nil
  then show ?case by simp
next
  case (Cons i rest)
  have h0: "inst_name i \<noteq> ''lithops-'' @ namegenerator_gen env (draws st) @ ''-instance''"
    using Cons.prems(2) by (metis add.right_neutral length_greater_0_conv list.distinct(1) nth_Cons_0)
  have hs: "\<forall>idx<length rest. inst_name (rest ! idx)
        \<noteq> ''lithops-'' @ namegenerator_gen env (draws (st\<lparr>draws := Suc (draws st)\<rparr>) + idx) @ ''-instance''"
  proof (intro allI impI)
    fix idx assume "idx < length rest"
    then have "Suc idx < length (i # rest)" by simp
    from Cons.prems(2) [rule_format, OF this]
    show "inst_name (rest ! idx)
        \<noteq> ''lithops-'' @ namegenerator_gen env (draws (st\<lparr>draws := Suc (draws st)\<rparr>) + idx) @ ''-instance''"
      by simp
  qed
  show ?case
    using h0 by (simp add: gen_name_random [OF Cons.prems(1)] Cons.IH [OF Cons.prems(1) hs])
qed

lemma create_partial_creates:
  assumes p: "job_key = None \<or> call_id = None" and l: "svc_list_instances env = Inr insts"
    and fresh: "\<forall>idx<length insts. inst_name (insts ! idx)
            \<noteq> ''lithops-'' @ namegenerator_gen env (draws st + idx) @ ''-instance''"
  shows "filter is_create_instance (vpc_calls (snd (create env job_key call_id st)))
          = filter is_create_instance (vpc_calls st)
            @ [CreateInstance
                 (''lithops-'' @ namegenerator_gen env (draws st + length insts + 2) @ ''-instance'')
                 (''lithops-'' @ namegenerator_gen env (draws st + length insts + 1) @ ''-boot'')
                 (''lithops-'' @ namegenerator_gen env (draws st + length insts) @ ''-volume'')]"
proof -
  let ?s1 = "issue ListInstances (st\<lparr>instance_id := None\<rparr>)"
  let ?n = "length insts"
  let ?C = "CreateInstance
                 (''lithops-'' @ namegenerator_gen env (draws st + ?n + 2) @ ''-instance'')
                 (''lithops-'' @ namegenerator_gen env (draws st + ?n + 1) @ ''-boot'')
                 (''lithops-'' @ namegenerator_gen env (draws st + ?n) @ ''-volume'')"
  have fresh1: "\<forall>idx<length insts. inst_name (insts ! idx)
            \<noteq> ''lithops-'' @ namegenerator_gen env (draws ?s1 + idx) @ ''-instance''"
    using fresh by simp
  note fv = find_vsi_random [OF p fresh1, of False None]
  let ?s2 = "?s1\<lparr>draws := draws st + ?n\<rparr>"
  let ?s3 = "issue ?C (?s2\<lparr>draws := draws st + ?n + 3\<rparr>)"
  have f3: "filter is_create_instance (vpc_calls ?s3) = filter is_create_instance (vpc_calls st) @ [?C]"
    by simp
  show "filter is_create_instance (vpc_calls (snd (create env job_key call_id st)))
          = filter is_create_instance (vpc_calls st) @ [?C]"
  proof (cases "svc_create_instance env (''lithops-'' @ namegenerator_gen env (draws st + ?n + 2) @ ''-instance'')")
    case (Inl e)
    then have ci: "create_instance env job_key call_id ?s2 = (Inl (ApiException e), ?s3)"
      by (simp add: create_instance_def gen_name_random [OF p] Let_def numeral_3_eq_3 numeral_2_eq_2)
    have "create env job_key call_id st = (Inl (ApiException e), ?s3)"
      using l by (simp add: create_def create_vsi_def Let_def fv ci)
    with f3 show ?thesis by simp
  next
    case (Inr inst)
    then have ci: "create_instance env job_key call_id ?s2 = (Inr inst, ?s3)"
      by (simp add: create_instance_def gen_name_random [OF p] Let_def numeral_3_eq_3 numeral_2_eq_2)
    have cv: "create_vsi env job_key call_id st
       = (Inr (False, inst), ?s3\<lparr>instance_id := Some (inst_id inst), config_instance_id := Some (inst_id inst)\<rparr>)"
      using l by (simp add: create_vsi_def Let_def fv ci)
    from create_after_vsi [OF cv] show ?thesis by simp
  qed
qed

lemma find_vsi_frame:
  "find_vsi env job_key call_id insts (ex, lv, st) = (ex', lv', st') \<Longrightarrow>
     vpc_calls st' = vpc_calls st \<and> config_instance_id st' = config_instance_id st"
  by (induction insts arbitrary: ex lv st)
     (auto simp: Let_def gen_name_def split: prod.splits if_splits)

lemma find_vsi_partial:
  assumes p: "job_key = None \<or> call_id = None"
  shows "find_vsi env job_key call_id insts (ex, lv, st) = (ex', lv', st') \<Longrightarrow>
     \<exists>idx<length insts. inst_name (insts ! idx)
         = ''lithops-'' @ namegenerator_gen env (draws st + idx) @ ''-instance'' \<Longrightarrow>
     ex' \<and> (\<exists>idx<length insts. inst_name (insts ! idx)
                 = ''lithops-'' @ namegenerator_gen env (draws st + idx) @ ''-instance''
               \<and> instance_id st' = Some (inst_id (insts ! idx)))"
proof (induction insts arbitrary: ex lv st)
  case Nil
  then show ?case by simp
next
  case (Cons i rest)
  let ?name = "\<lambda>k. ''lithops-'' @ namegenerator_gen env k @ ''-instance''"
  let ?st1 = "st\<lparr>draws := Suc (draws st)\<rparr>"
  have g: "gen_name env ''instance'' job_key call_id st = (?name (draws st), ?st1)"
    using gen_name_random [OF p] by simp
  show ?case
  proof (cases "\<exists>idx<length rest. inst_name (rest ! idx) = ?name (draws ?st1 + idx)")
    case True
    obtain ex0 st0 where r: "find_vsi env job_key call_id rest (ex0, Some i, st0) = (ex', lv', st')"
      and d0: "draws st0 = draws ?st1"
      using Cons.prems(1) g by (auto simp: Let_def split: if_splits)
    from True d0 have t0: "\<exists>idx<length rest. inst_name (rest ! idx) = ?name (draws st0 + idx)"
      by simp
    from Cons.IH [OF r t0] obtain idx where idx: "ex'" "idx < length rest"
      "inst_name (rest ! idx) = ?name (draws st0 + idx)" "instance_id st' = Some (inst_id (rest ! idx))"
      by blast
    have "Suc idx < length (i # rest)" using idx(2) by simp
    moreover have "inst_name ((i # rest) ! Suc idx) = ?name (draws st + Suc idx)"
      using idx(3) d0 by simp
    moreover have "instance_id st' = Some (inst_id ((i # rest) ! Suc idx))" using idx(4) by simp
    ultimately show ?thesis using idx(1) by blast
  next
    case False
    then have nr: "\<forall>idx<length rest. inst_name (rest ! idx) \<noteq> ?name (draws ?st1 + idx)" by simp
    have i0: "inst_name i = ?name (draws st)"
    proof -
      from Cons.prems(2) obtain idx where idx: "idx < length (i # rest)"
        "inst_name ((i # rest) ! idx) = ?name (draws st + idx)" by blast
      show ?thesis
      proof (cases idx)
        case 0
        with idx show ?thesis by simp
      next
        case (Suc m)
        with idx have "m < length rest" "inst_name (rest ! m) = ?name (draws ?st1 + m)" by simp_all
        with nr show ?thesis by blast
      qed
    qed
    let ?st2 = "?st1\<lparr>instance_id := Some (inst_id i)\<rparr>"
    have nr2: "\<forall>idx<length rest. inst_name (rest ! idx) \<noteq> ?name (draws ?st2 + idx)"
      using nr by simp
    have "find_vsi env job_key call_id (i # rest) (ex, lv, st)
            = find_vsi env job_key call_id rest (True, Some i, ?st2)"
      using g i0 by simp
    also have "\<dots> = (True, if rest = [] then Some i else Some (last rest),
                      ?st2\<lparr>draws := draws ?st2 + length rest\<rparr>)"
      by (rule find_vsi_random [OF p nr2])
    finally have "ex'" "instance_id st' = Some (inst_id i)"
      using Cons.prems(1) by auto
    with i0 show ?thesis by (intro conjI exI [of _ 0]) simp_all
  qed
qed

lemma create_partial_adopts:
  assumes p: "job_key = None \<or> call_id = None"
    and l: "svc_list_instances env = Inr insts"
    and m: "\<exists>idx<length insts. inst_name (insts ! idx)
         = ''lithops-'' @ namegenerator_gen env (draws st + idx) @ ''-instance''"
  shows "filter is_create_instance (vpc_calls (snd (create env job_key call_id st)))
           = filter is_create_instance (vpc_calls st)
       \<and> (\<exists>idx<length insts. inst_name (insts ! idx)
                 = ''lithops-'' @ namegenerator_gen env (draws st + idx) @ ''-instance''
               \<and> instance_id (snd (create env job_key call_id st)) = Some (inst_id (insts ! idx)))"
proof -
  let ?s1 = "issue ListInstances (st\<lparr>instance_id := None\<rparr>)"
  obtain ex lv s2 where fv: "find_vsi env job_key call_id insts (False, None, ?s1) = (ex, lv, s2)"
    by (cases "find_vsi env job_key call_id insts (False, None, ?s1)") auto
  from m have m1: "\<exists>idx<length insts. inst_name (insts ! idx)
         = ''lithops-'' @ namegenerator_gen env (draws ?s1 + idx) @ ''-instance''"
    by simp
  from find_vsi_partial [OF p fv m1] obtain idx where idx: "ex" "idx < length insts"
    "inst_name (insts ! idx) = ''lithops-'' @ namegenerator_gen env (draws st + idx) @ ''-instance''"
    "instance_id s2 = Some (inst_id (insts ! idx))"
    by auto
  have ne: "insts \<noteq> []" using idx(2) by auto
  have lvv: "lv = Some (last insts)"
    using find_vsi_loop_var [of env job_key call_id insts False None ?s1] fv ne by simp
  have c2: "vpc_calls s2 = vpc_calls st @ [ListInstances]"
    using find_vsi_frame [OF fv] by simp
  have cv: "create_vsi env job_key call_id st = (Inr (True, last insts), s2)"
    using l fv idx(1) lvv by (simp add: create_vsi_def Let_def)
  from create_after_vsi [OF cv] c2 idx show ?thesis by auto
qed

text \<open>
  C10 (amended). \<open>_generate_name\<close> takes the deterministic branch only when both
  \<open>job_key\<close> and \<open>call_id\<close> are given; when either is \<open>None\<close> the name is built from a
  fresh draw of the random generator, and the component that was given plays no part:
  two such names coincide exactly when the two draws do. In \<open>create\<close> with such an
  identity, a listed instance is adopted exactly when it carries the name drawn at the
  iteration of the loop that compares it: then no instance is created and
  \<open>self.instance_id\<close> ends as the id of such an instance; when no listed instance
  carries the name drawn for it, a new instance is created under names drawn afresh.
\<close>

theorem partial_identity_names_are_random:
  "(job_key = None \<or> call_id = None \<longrightarrow>
      generate_name gen k r_type job_key call_id = (''lithops-'' @ gen k @ ''-'' @ r_type, Suc k))
   \<and> generate_name gen k r_type (Some j) (Some c)
       = (''lithops'' @ py_str j @ ''-'' @ py_str c @ ''-'' @ r_type, k)
   \<and> ((job_key = None \<or> call_id = None) \<longrightarrow> (job_key' = None \<or> call_id' = None) \<longrightarrow>
        (fst (generate_name gen k r_type job_key call_id)
           = fst (generate_name gen' k' r_type job_key' call_id')) = (gen k = gen' k'))
   \<and> ((job_key = None \<or> call_id = None) \<longrightarrow> svc_list_instances env = Inr insts \<longrightarrow>
        (\<exists>idx<length insts. inst_name (insts ! idx)
            = ''lithops-'' @ namegenerator_gen env (draws st + idx) @ ''-instance'') \<longrightarrow>
        filter is_create_instance (vpc_calls (snd (create env job_key call_id st)))
          = filter is_create_instance (vpc_calls st)
        \<and> (\<exists>idx<length insts. inst_name (insts ! idx)
                 = ''lithops-'' @ namegenerator_gen env (draws st + idx) @ ''-instance''
               \<and> instance_id (snd (create env job_key call_id st)) = Some (inst_id (insts ! idx))))
   \<and> ((job_key = None \<or> call_id = None) \<longrightarrow> svc_list_instances env = Inr insts \<longrightarrow>
        (\<forall>idx<length insts. inst_name (insts ! idx)
            \<noteq> ''lithops-'' @ namegenerator_gen env (draws st + idx) @ ''-instance'') \<longrightarrow>
        filter is_create_instance (vpc_calls (snd (create env job_key call_id st)))
          = filter is_create_instance (vpc_calls st)
            @ [CreateInstance
                 (''lithops-'' @ namegenerator_gen env (draws st + length insts + 2) @ ''-instance'')
                 (''lithops-'' @ namegenerator_gen env (draws st + length insts + 1) @ ''-boot'')
                 (''lithops-'' @ namegenerator_gen env (draws st + length insts) @ ''-volume'')])"
proof (intro conjI impI)
  assume "job_key = None \<or> call_id = None"
  then show "generate_name gen k r_type job_key call_id = (''lithops-'' @ gen k @ ''-'' @ r_type, Suc k)"
    by (auto simp: generate_name_def split: option.splits)
next
  show "generate_name gen k r_type (Some j) (Some c)
       = (''lithops'' @ py_str j @ ''-'' @ py_str c @ ''-'' @ r_type, k)"
    by (simp add: generate_name_def)
next
  assume "job_key = None \<or> call_id = None" "job_key' = None \<or> call_id' = None"
  then show "(fst (generate_name gen k r_type job_key call_id)
           = fst (generate_name gen' k' r_type job_key' call_id')) = (gen k = gen' k')"
    by (auto simp: generate_name_def split: option.splits)
next
  assume p: "job_key = None \<or> call_id = None" and l: "svc_list_instances env = Inr insts"
    and m: "\<exists>idx<length insts. inst_name (insts ! idx)
            = ''lithops-'' @ namegenerator_gen env (draws st + idx) @ ''-instance''"
  note a = create_partial_adopts [OF p l m]
  from a show "filter is_create_instance (vpc_calls (snd (create env job_key call_id st)))
          = filter is_create_instance (vpc_calls st)"
    by blast
  from a show "\<exists>idx<length insts. inst_name (insts ! idx)
                 = ''lithops-'' @ namegenerator_gen env (draws st + idx) @ ''-instance''
               \<and> instance_id (snd (create env job_key call_id st)) = Some (inst_id (insts ! idx))"
    by blast
next
  assume p: "job_key = None \<or> call_id = None" and l: "svc_list_instances env = Inr insts"
    and fresh: "\<forall>idx<length insts. inst_name (insts ! idx)
            \<noteq> ''lithops-'' @ namegenerator_gen env (draws st + idx) @ ''-instance''"
  show "filter is_create_instance (vpc_calls (snd (create env job_key call_id st)))
          = filter is_create_instance (vpc_calls st)
            @ [CreateInstance
                 (''lithops-'' @ namegenerator_gen env (draws st + length insts + 2) @ ''-instance'')
                 (''lithops-'' @ namegenerator_gen env (draws st + length insts + 1) @ ''-boot'')
                 (''lithops-'' @ namegenerator_gen env (draws st + length insts) @ ''-volume'')]"
    by (rule create_partial_creates [OF p l fresh])
qed

theorem partial_identity_names_are_random_witness:
  "generate_name (namegenerator_gen (demo_vpc_env [] [] [])) 0 ''instance'' (Some (PyInt 7)) None
     = (''lithops-z-instance'', 1)
   \<and> fst (generate_name (namegenerator_gen (demo_vpc_env [] [] [])) 0 ''instance'' (Some (PyInt 7)) None)
     \<noteq> fst (generate_name (namegenerator_gen (demo_vpc_env [] [] [])) 1 ''instance'' (Some (PyInt 7)) None)
   \<and> filter is_create_instance (vpc_calls (snd (create
         (demo_vpc_env [demo_vsi ''lithops-z-instance''] [] []) (Some (PyInt 7)) None (demo_vpc_state True))))
     = []
   \<and> instance_id (snd (create
         (demo_vpc_env [demo_vsi ''lithops-z-instance''] [] []) (Some (PyInt 7)) None (demo_vpc_state True)))
     = Some ''id-lithops-z-instance''
   \<and> filter is_create_instance (vpc_calls (snd (create
         (demo_vpc_env [demo_vsi ''lithops-zz-instance''] [] []) (Some (PyInt 7)) None (demo_vpc_state True))))
     = [CreateInstance ''lithops-zzzz-instance'' ''lithops-zzz-boot'' ''lithops-zz-volume'']"
proof -
  let ?gen = "namegenerator_gen (demo_vpc_env [] [] [])"
  let ?envA = "demo_vpc_env [demo_vsi ''lithops-z-instance''] [] []"
  let ?envB = "demo_vpc_env [demo_vsi ''lithops-zz-instance''] [] []"
  let ?st = "demo_vpc_state True"
  note tA = partial_identity_names_are_random [of "Some (PyInt 7)" None ?gen 0 "''instance''" "PyInt 7" "PyInt 3"
       "Some (PyInt 7)" None ?gen 1 ?envA "[demo_vsi ''lithops-z-instance'']" ?st]
  note tB = partial_identity_names_are_random [of "Some (PyInt 7)" None ?gen 0 "''instance''" "PyInt 7" "PyInt 3"
       "Some (PyInt 7)" None ?gen 1 ?envB "[demo_vsi ''lithops-zz-instance'']" ?st]
  have g: "\<And>a b c k. namegenerator_gen (demo_vpc_env a b c) k = replicate (Suc k) CHR ''z''"
    by (simp add: demo_vpc_env_def demo_gen_def)
  have d: "draws ?st = 0" "vpc_calls ?st = []"
    by (simp_all add: demo_vpc_state_def)
  have lA: "svc_list_instances ?envA = Inr [demo_vsi ''lithops-z-instance'']"
    and lB: "svc_list_instances ?envB = Inr [demo_vsi ''lithops-zz-instance'']"
    by (simp_all add: demo_vpc_env_def)
  have mA: "\<exists>idx<length [demo_vsi ''lithops-z-instance''].
              inst_name ([demo_vsi ''lithops-z-instance''] ! idx)
                = ''lithops-'' @ namegenerator_gen ?envA (draws ?st + idx) @ ''-instance''"
    by (simp add: g d demo_vsi_def)
  have fB: "\<forall>idx<length [demo_vsi ''lithops-zz-instance''].
              inst_name ([demo_vsi ''lithops-zz-instance''] ! idx)
                \<noteq> ''lithops-'' @ namegenerator_gen ?envB (draws ?st + idx) @ ''-instance''"
    by (simp add: g d demo_vsi_def)
  from tA have n1: "generate_name ?gen 0 ''instance'' (Some (PyInt 7)) None = (''lithops-z-instance'', 1)"
    by (simp add: g generate_name_def)
  from tA have n2: "fst (generate_name ?gen 0 ''instance'' (Some (PyInt 7)) None)
     \<noteq> fst (generate_name ?gen 1 ''instance'' (Some (PyInt 7)) None)"
    by (simp add: g generate_name_def)
  from tA lA mA have a1: "filter is_create_instance
        (vpc_calls (snd (create ?envA (Some (PyInt 7)) None ?st))) = filter is_create_instance (vpc_calls ?st)"
    and a2: "\<exists>idx<length [demo_vsi ''lithops-z-instance'']. inst_name ([demo_vsi ''lithops-z-instance''] ! idx)
                 = ''lithops-'' @ namegenerator_gen ?envA (draws ?st + idx) @ ''-instance''
               \<and> instance_id (snd (create ?envA (Some (PyInt 7)) None ?st))
                   = Some (inst_id ([demo_vsi ''lithops-z-instance''] ! idx))"
    by blast+
  from a2 have a3: "instance_id (snd (create ?envA (Some (PyInt 7)) None ?st)) = Some ''id-lithops-z-instance''"
    by (auto simp: demo_vsi_def)
  from tB lB fB have b1: "filter is_create_instance
        (vpc_calls (snd (create ?envB (Some (PyInt 7)) None ?st)))
          = filter is_create_instance (vpc_calls ?st)
            @ [CreateInstance
                 (''lithops-'' @ namegenerator_gen ?envB (draws ?st + length [demo_vsi ''lithops-zz-instance''] + 2) @ ''-instance'')
                 (''lithops-'' @ namegenerator_gen ?envB (draws ?st + length [demo_vsi ''lithops-zz-instance''] + 1) @ ''-boot'')
                 (''lithops-'' @ namegenerator_gen ?envB (draws ?st + length [demo_vsi ''lithops-zz-instance'']) @ ''-volume'')]"
    by blast
  from n1 n2 a1 a3 b1 show ?thesis
    by (simp add: g d numeral_3_eq_3 numeral_2_eq_2)
qed

text \<open>
  C10 as stated fails when two draws coincide. With a generator that draws \<open>z\<close> every
  time, \<open>create(7, None)\<close> on an empty region creates the instance
  \<open>lithops-z-instance\<close>, and a second \<open>create(7, None)\<close> by a fresh client, listing that
  instance, derives the same name, creates nothing and adopts it.
\<close>

theorem partial_identity_adoption_counterexample:
  "filter is_create_instance
     (vpc_calls (snd (create (stuck_env []) demo_job None (demo_vpc_state True))))
     = [CreateInstance ''lithops-z-instance'' ''lithops-z-boot'' ''lithops-z-volume'']
   \<and> filter is_create_instance
       (vpc_calls (snd (create (stuck_env [demo_vsi ''lithops-z-instance'']) demo_job None
                         (demo_vpc_state True)))) = []
   \<and> instance_id (snd (create (stuck_env [demo_vsi ''lithops-z-instance'']) demo_job None
                         (demo_vpc_state True))) = Some ''id-lithops-z-instance''"
  by (simp add: vpc_eval stuck_env_def stuck_gen_def)

section \<open>IBM VPC: stop and the keep-alive flag\<close>

lemma delete_floating_ips_prefix:
  "delete_floating_ips env fips st = (r, st1) \<Longrightarrow>
     \<exists>xs. vpc_calls st1 = vpc_calls st @ xs
        \<and> prefix xs (map (\<lambda>fip. DeleteFloatingIp (fip_id fip)) fips)
        \<and> (\<forall>u. r = Inr u \<longrightarrow> xs = map (\<lambda>fip. DeleteFloatingIp (fip_id fip)) fips)"
proof (induction fips arbitrary: st)
  case Nil
  then show ?case by simp
next
  case (Cons f fips)
  show ?case
  proof (cases "svc_delete_floating_ip env (fip_id f)")
    case (Some e)
    with Cons.prems show ?thesis by (auto simp: Let_def)
  next
    case None
    with Cons.prems have "delete_floating_ips env fips (issue (DeleteFloatingIp (fip_id f)) st) = (r, st1)"
      by (simp add: Let_def)
    from Cons.IH [OF this] obtain xs where
      "vpc_calls st1 = vpc_calls st @ DeleteFloatingIp (fip_id f) # xs"
      "prefix xs (map (\<lambda>fip. DeleteFloatingIp (fip_id fip)) fips)"
      "\<forall>u. r = Inr u \<longrightarrow> xs = map (\<lambda>fip. DeleteFloatingIp (fip_id fip)) fips"
      by auto
    then show ?thesis
      by (intro exI [of _ "DeleteFloatingIp (fip_id f) # xs"]) simp
  qed
qed

lemma delete_nic_floating_ips_prefix:
  "delete_nic_floating_ips env nics st = (r, st1) \<Longrightarrow>
     \<exists>xs. vpc_calls st1 = vpc_calls st @ xs
        \<and> prefix xs (map (\<lambda>fip. DeleteFloatingIp (fip_id fip)) (attached_floating_ips nics))
        \<and> (\<forall>u. r = Inr u \<longrightarrow> xs = map (\<lambda>fip. DeleteFloatingIp (fip_id fip)) (attached_floating_ips nics))"
proof (induction nics arbitrary: st)
  case Nil
  then show ?case by (simp add: attached_floating_ips_def)
next
  case (Cons n nics)
  show ?case
  proof (cases "nic_floating_ips n")
    case None
    with Cons.prems have "delete_nic_floating_ips env nics st = (r, st1)" by simp
    from Cons.IH [OF this] None show ?thesis by (simp add: attached_floating_ips_def)
  next
    case (Some fips)
    have att: "attached_floating_ips (n # nics) = fips @ attached_floating_ips nics"
      using Some by (simp add: attached_floating_ips_def)
    obtain r2 st2 where d: "delete_floating_ips env fips st = (r2, st2)"
      by (cases "delete_floating_ips env fips st")
    from delete_floating_ips_prefix [OF d] obtain xs where xs:
      "vpc_calls st2 = vpc_calls st @ xs"
      "prefix xs (map (\<lambda>fip. DeleteFloatingIp (fip_id fip)) fips)"
      "\<forall>u. r2 = Inr u \<longrightarrow> xs = map (\<lambda>fip. DeleteFloatingIp (fip_id fip)) fips"
      by auto
    show ?thesis
    proof (cases r2)
      case (Inl e)
      with Cons.prems Some d have "r = Inl e" "st1 = st2" by simp_all
      with xs show ?thesis
        by (intro exI [of _ xs]) (simp add: att prefix_prefix)
    next
      case (Inr u)
      with Cons.prems Some d have "delete_nic_floating_ips env nics st2 = (r, st1)" by simp
      from Cons.IH [OF this] obtain ys where ys:
        "vpc_calls st1 = vpc_calls st2 @ ys"
        "prefix ys (map (\<lambda>fip. DeleteFloatingIp (fip_id fip)) (attached_floating_ips nics))"
        "\<forall>u. r = Inr u \<longrightarrow> ys = map (\<lambda>fip. DeleteFloatingIp (fip_id fip)) (attached_floating_ips nics)"
        by auto
      from xs(3) Inr have full: "xs = map (\<lambda>fip. DeleteFloatingIp (fip_id fip)) fips" by simp
      show ?thesis
        using xs(1) ys full by (intro exI [of _ "xs @ ys"]) (simp add: att)
    qed
  qed
qed

lemma delete_instance_prefix:
  assumes "svc_list_instance_network_interfaces env (config_instance_id st) = Inr nics"
  shows "\<exists>xs. vpc_calls (snd (delete_instance env st)) = vpc_calls st @ xs
           \<and> prefix xs (teardown_calls (config_instance_id st) nics)"
proof -
  let ?st0 = "issue (ListInstanceNetworkInterfaces (config_instance_id st)) st"
  obtain r2 st2 where d: "delete_nic_floating_ips env nics ?st0 = (r2, st2)"
    by (cases "delete_nic_floating_ips env nics ?st0")
  from delete_nic_floating_ips_prefix [OF d] obtain xs where xs:
    "vpc_calls st2 = vpc_calls ?st0 @ xs"
    "prefix xs (map (\<lambda>fip. DeleteFloatingIp (fip_id fip)) (attached_floating_ips nics))"
    "\<forall>u. r2 = Inr u \<longrightarrow> xs = map (\<lambda>fip. DeleteFloatingIp (fip_id fip)) (attached_floating_ips nics)"
    by auto
  have c2: "config_instance_id st2 = config_instance_id st"
    using delete_nic_floating_ips_frame [OF d] by simp
  show ?thesis
  proof (cases r2)
    case (Inl e)
    then have "snd (delete_instance env st) = st2"
      using assms d by (simp add: delete_instance_def Let_def)
    with xs show ?thesis
      by (intro exI [of _ "ListInstanceNetworkInterfaces (config_instance_id st) # xs"])
         (simp add: teardown_calls_def prefix_prefix)
  next
    case (Inr u)
    then have "snd (delete_instance env st) = issue (DeleteInstance (config_instance_id st)) st2"
      using assms d c2 by (simp add: delete_instance_def Let_def split: option.splits)
    with xs Inr show ?thesis
      by (intro exI [of _ "ListInstanceNetworkInterfaces (config_instance_id st) # xs
                            @ [DeleteInstance (config_instance_id st)]"])
         (simp add: teardown_calls_def)
  qed
qed

lemma get_instance_calls:
  "get_instance env st = (r, st1) \<Longrightarrow>
     \<exists>xs. vpc_calls st1 = vpc_calls st @ xs \<and> (\<forall>c\<in>set xs. is_poll_call c)"
  by (auto simp: get_instance_def authorize_session_def Let_def
       split: option.splits sum.splits prod.splits)

lemma wait_for_status_calls:
  "wait_for_status env expected fuel st = (r, st1) \<Longrightarrow>
     \<exists>xs. vpc_calls st1 = vpc_calls st @ xs \<and> (\<forall>c\<in>set xs. is_poll_call c)"
proof (induction fuel arbitrary: st)
  case 0
  then show ?case by simp
next
  case (Suc fuel)
  show ?case
  proof (cases "instance_data_status st = Some expected")
    case True
    with Suc.prems show ?thesis by simp
  next
    case False
    obtain r2 st2 where g: "get_instance env (issue SleepOneSecond st) = (r2, st2)"
      by (cases "get_instance env (issue SleepOneSecond st)")
    from get_instance_calls [OF g] obtain xs where xs:
      "vpc_calls st2 = vpc_calls st @ SleepOneSecond # xs" "\<forall>c\<in>set xs. is_poll_call c"
      by auto
    show ?thesis
    proof (cases r2)
      case (Inl e)
      with Suc.prems False g have "st1 = st2" by simp
      with xs show ?thesis by (intro exI [of _ "SleepOneSecond # xs"]) simp
    next
      case (Inr status)
      with Suc.prems False g
      have "wait_for_status env expected fuel (st2\<lparr>instance_data_status := Some status\<rparr>) = (r, st1)"
        by simp
      from Suc.IH [OF this] obtain ys where
        "vpc_calls st1 = vpc_calls st2 @ ys" "\<forall>c\<in>set ys. is_poll_call c"
        by auto
      with xs show ?thesis by (intro exI [of _ "SleepOneSecond # xs @ ys"]) auto
    qed
  qed
qed

lemma stop_action_posted:
  assumes cid: "config_instance_id st = Some iid" and tok: "iam_get_token env = None"
  shows "\<exists>ys. vpc_calls (snd (create_instance_action env fuel ''stop'' st))
                 = vpc_calls st @ GetToken # PostInstanceAction iid ''stop'' # ys
            \<and> (\<forall>c\<in>set ys. is_poll_call c)"
proof -
  let ?st2 = "issue (PostInstanceAction iid ''stop'') (issue GetToken st)"
  have base: "vpc_calls ?st2 = vpc_calls st @ [GetToken, PostInstanceAction iid ''stop'']" by simp
  show ?thesis
  proof (cases "sess_post_action env iid ''stop''")
    case (Inl e)
    with cid tok have "snd (create_instance_action env fuel ''stop'' st) = ?st2"
      by (simp add: create_instance_action_def authorize_session_def Let_def)
    with base show ?thesis by simp
  next
    case (Inr code)
    show ?thesis
    proof (cases "code = 201")
      case False
      with Inr cid tok have "snd (create_instance_action env fuel ''stop'' st) = ?st2"
        by (simp add: create_instance_action_def authorize_session_def Let_def)
      with base show ?thesis by simp
    next
      case True
      obtain r3 st3 where g: "get_instance env ?st2 = (r3, st3)"
        by (cases "get_instance env ?st2")
      from get_instance_calls [OF g] obtain xs where xs:
        "vpc_calls st3 = vpc_calls ?st2 @ xs" "\<forall>c\<in>set xs. is_poll_call c" by auto
      show ?thesis
      proof (cases r3)
        case (Inl e)
        with True Inr cid tok g
        have "snd (create_instance_action env fuel ''stop'' st) = st3"
          by (simp add: create_instance_action_def authorize_session_def Let_def)
        with xs show ?thesis by simp
      next
        case (Inr status)
        obtain r4 st4 where w: "wait_for_status env ''stopped'' fuel
              (st3\<lparr>instance_data_status := Some status\<rparr>) = (r4, st4)"
          by (cases "wait_for_status env ''stopped'' fuel (st3\<lparr>instance_data_status := Some status\<rparr>)")
        from wait_for_status_calls [OF w] obtain ys where ys:
          "vpc_calls st4 = vpc_calls st3 @ ys" "\<forall>c\<in>set ys. is_poll_call c" by auto
        from True \<open>sess_post_action env iid ''stop'' = Inr code\<close> cid tok g Inr w
        have "snd (create_instance_action env fuel ''stop'' st) = st4"
          by (simp add: create_instance_action_def authorize_session_def Let_def)
        with xs ys show ?thesis
          by (intro exI [of _ "xs @ ys"]) auto
      qed
    qed
  qed
qed

lemma stop_action_calls:
  "\<exists>xs. vpc_calls (snd (create_instance_action env fuel ''stop'' st)) = vpc_calls st @ xs
      \<and> (xs = [] \<or> xs = [GetToken]
          \<or> (\<exists>iid ys. config_instance_id st = Some iid
                \<and> xs = GetToken # PostInstanceAction iid ''stop'' # ys
                \<and> (\<forall>c\<in>set ys. is_poll_call c)))"
proof (cases "config_instance_id st")
  case None
  then show ?thesis by (simp add: create_instance_action_def)
next
  case (Some iid)
  show ?thesis
  proof (cases "iam_get_token env")
    case (Some e)
    with \<open>config_instance_id st = Some iid\<close> show ?thesis
      by (simp add: create_instance_action_def authorize_session_def)
  next
    case None
    from stop_action_posted [OF \<open>config_instance_id st = Some iid\<close> None, of fuel]
    obtain ys where "vpc_calls (snd (create_instance_action env fuel ''stop'' st))
                 = vpc_calls st @ GetToken # PostInstanceAction iid ''stop'' # ys"
      "\<forall>c\<in>set ys. is_poll_call c"
      by blast
    with \<open>config_instance_id st = Some iid\<close> show ?thesis by blast
  qed
qed

lemma poll_call_not_release: "is_poll_call c \<Longrightarrow> \<not> is_release_call c"
  by (cases c) simp_all

text \<open>
  C8 (amended). \<open>stop\<close> follows \<open>delete_on_dismantle\<close>. With the flag set and every
  call of the teardown returning, \<open>stop\<close> lists the interfaces of the instance,
  releases every floating IP attached to each of them, then deletes the instance, in
  that order, and returns; a call that raises ends \<open>stop\<close> there, so the calls issued
  are always an initial part of that sequence and the instance is never deleted before
  every attached floating IP has been released. With the flag clear, \<open>stop\<close> issues no
  release at all; once the configured instance id is set and the token is obtained, it
  posts the instance action \<open>stop\<close> on that instance, and everything it issues after
  that is a poll of the waiting loop, however long that loop runs.
\<close>

theorem stop_obeys_delete_on_dismantle:
  "(delete_on_dismantle st \<longrightarrow>
      svc_list_instance_network_interfaces env (config_instance_id st) = Inr nics \<longrightarrow>
      (\<forall>f\<in>set (attached_floating_ips nics). svc_delete_floating_ip env (fip_id f) = None) \<longrightarrow>
      svc_delete_instance env (config_instance_id st) = None \<longrightarrow>
      stop env fuel st
        = (Some (Inr ()),
           st\<lparr>vpc_calls := vpc_calls st @ teardown_calls (config_instance_id st) nics\<rparr>))
   \<and> (delete_on_dismantle st \<longrightarrow>
      svc_list_instance_network_interfaces env (config_instance_id st) = Inr nics \<longrightarrow>
      (\<exists>xs. vpc_calls (snd (stop env fuel st)) = vpc_calls st @ xs
          \<and> prefix xs (teardown_calls (config_instance_id st) nics)))
   \<and> (\<not> delete_on_dismantle st \<longrightarrow>
      (\<exists>xs. vpc_calls (snd (stop env fuel st)) = vpc_calls st @ xs
          \<and> (\<forall>c\<in>set xs. \<not> is_release_call c)
          \<and> (xs = [] \<or> xs = [GetToken]
              \<or> (\<exists>iid ys. config_instance_id st = Some iid
                    \<and> xs = GetToken # PostInstanceAction iid ''stop'' # ys
                    \<and> (\<forall>c\<in>set ys. is_poll_call c)))))
   \<and> (\<not> delete_on_dismantle st \<longrightarrow> config_instance_id st = Some iid \<longrightarrow>
      iam_get_token env = None \<longrightarrow>
      (\<exists>ys. vpc_calls (snd (stop env fuel st))
               = vpc_calls st @ GetToken # PostInstanceAction iid ''stop'' # ys
          \<and> (\<forall>c\<in>set ys. is_poll_call c)))"
proof (intro conjI impI)
  assume "delete_on_dismantle st"
    and "svc_list_instance_network_interfaces env (config_instance_id st) = Inr nics"
    and "\<forall>f\<in>set (attached_floating_ips nics). svc_delete_floating_ip env (fip_id f) = None"
    and "svc_delete_instance env (config_instance_id st) = None"
  then show "stop env fuel st
        = (Some (Inr ()),
           st\<lparr>vpc_calls := vpc_calls st @ teardown_calls (config_instance_id st) nics\<rparr>)"
    by (simp add: stop_def delete_instance_ok)
next
  assume d: "delete_on_dismantle st"
    and l: "svc_list_instance_network_interfaces env (config_instance_id st) = Inr nics"
  have "snd (stop env fuel st) = snd (delete_instance env st)"
    using d by (simp add: stop_def split: prod.splits)
  with delete_instance_prefix [OF l]
  show "\<exists>xs. vpc_calls (snd (stop env fuel st)) = vpc_calls st @ xs
          \<and> prefix xs (teardown_calls (config_instance_id st) nics)"
    by simp
next
  assume d: "\<not> delete_on_dismantle st"
  then have s: "stop env fuel st = create_instance_action env fuel ''stop'' st"
    by (simp add: stop_def)
  from stop_action_calls [of env fuel st] obtain xs where xs:
    "vpc_calls (snd (create_instance_action env fuel ''stop'' st)) = vpc_calls st @ xs"
    "xs = [] \<or> xs = [GetToken]
          \<or> (\<exists>iid ys. config_instance_id st = Some iid
                \<and> xs = GetToken # PostInstanceAction iid ''stop'' # ys
                \<and> (\<forall>c\<in>set ys. is_poll_call c))"
    by blast
  from xs(2) have "\<forall>c\<in>set xs. \<not> is_release_call c"
    using poll_call_not_release by fastforce
  with xs show "\<exists>xs. vpc_calls (snd (stop env fuel st)) = vpc_calls st @ xs
          \<and> (\<forall>c\<in>set xs. \<not> is_release_call c)
          \<and> (xs = [] \<or> xs = [GetToken]
              \<or> (\<exists>iid ys. config_instance_id st = Some iid
                    \<and> xs = GetToken # PostInstanceAction iid ''stop'' # ys
                    \<and> (\<forall>c\<in>set ys. is_poll_call c)))"
    unfolding s by blast
next
  assume d: "\<not> delete_on_dismantle st" and cid: "config_instance_id st = Some iid"
    and tok: "iam_get_token env = None"
  from d have s: "stop env fuel st = create_instance_action env fuel ''stop'' st"
    by (simp add: stop_def)
  from stop_action_posted [OF cid tok, of fuel]
  show "\<exists>ys. vpc_calls (snd (stop env fuel st))
               = vpc_calls st @ GetToken # PostInstanceAction iid ''stop'' # ys
          \<and> (\<forall>c\<in>set ys. is_poll_call c)"
    unfolding s .
qed

theorem stop_obeys_delete_on_dismantle_witness:
  "stop (demo_vpc_env [] [] demo_nics) 10 (demo_running_state True)
     = (Some (Inr ()),
        (demo_running_state True)\<lparr>vpc_calls :=
           [ListInstanceNetworkInterfaces (Some ''i1''), DeleteFloatingIp ''f1'',
            DeleteFloatingIp ''f2'', DeleteInstance (Some ''i1'')]\<rparr>)
   \<and> filter is_release_call
        (vpc_calls (snd (stop (demo_vpc_env [] [] demo_nics) 10 (demo_running_state False)))) = []
   \<and> take 2 (vpc_calls (snd (stop (demo_vpc_env [] [] demo_nics) 10 (demo_running_state False))))
        = [GetToken, PostInstanceAction ''i1'' ''stop'']"
proof -
  let ?env = "demo_vpc_env [] [] demo_nics"
  have t: "delete_on_dismantle (demo_running_state True)"
    and f: "\<not> delete_on_dismantle (demo_running_state False)"
    and c: "config_instance_id (demo_running_state True) = Some ''i1''"
      "vpc_calls (demo_running_state True) = []" "vpc_calls (demo_running_state False) = []"
    and cf: "config_instance_id (demo_running_state False) = Some ''i1''"
    by (simp_all add: demo_running_state_def demo_vpc_state_def)
  have l: "svc_list_instance_network_interfaces ?env (config_instance_id (demo_running_state True))
             = Inr demo_nics"
    and d: "\<forall>f\<in>set (attached_floating_ips demo_nics). svc_delete_floating_ip ?env (fip_id f) = None"
    and i: "svc_delete_instance ?env (config_instance_id (demo_running_state True)) = None"
    and tk: "iam_get_token ?env = None"
    by (simp_all add: demo_vpc_env_def)
  have p: "teardown_calls (Some ''i1'') demo_nics
     = [ListInstanceNetworkInterfaces (Some ''i1''), DeleteFloatingIp ''f1'',
        DeleteFloatingIp ''f2'', DeleteInstance (Some ''i1'')]"
    by (simp add: teardown_calls_def attached_floating_ips_def demo_nics_def demo_fip_def)
  have a: "stop ?env 10 (demo_running_state True)
     = (Some (Inr ()),
        (demo_running_state True)\<lparr>vpc_calls :=
           [ListInstanceNetworkInterfaces (Some ''i1''), DeleteFloatingIp ''f1'',
            DeleteFloatingIp ''f2'', DeleteInstance (Some ''i1'')]\<rparr>)"
    using stop_obeys_delete_on_dismantle [of "demo_running_state True" ?env demo_nics 10] t l d i
    by (simp add: c p)
  have b: "filter is_release_call (vpc_calls (snd (stop ?env 10 (demo_running_state False)))) = []"
    using stop_obeys_delete_on_dismantle [of "demo_running_state False" ?env demo_nics 10] f
    by (auto simp: c filter_empty_conv)
  have e: "take 2 (vpc_calls (snd (stop ?env 10 (demo_running_state False))))
             = [GetToken, PostInstanceAction ''i1'' ''stop'']"
    using stop_obeys_delete_on_dismantle [of "demo_running_state False" ?env demo_nics 10 "''i1''"] f cf tk
    by (auto simp: c)
  from a b e show ?thesis by blast
qed

text \<open>
  C8 as stated fails when a release raises. The instance has the floating IPs \<open>f1\<close>
  and \<open>f2\<close> attached and the flag is set; the release of \<open>f1\<close> is refused, and \<open>stop\<close>
  ends with that exception: \<open>f2\<close> is not released and the instance is not deleted.
\<close>

theorem stop_release_failure_counterexample:
  "delete_on_dismantle (demo_running_state True)
   \<and> map fip_id (attached_floating_ips demo_nics) = [''f1'', ''f2'']
   \<and> stop busy_release_env 10 (demo_running_state True)
     = (Some (Inl (ApiException ''busy'')),
        (demo_running_state True)\<lparr>vpc_calls :=
           [ListInstanceNetworkInterfaces (Some ''i1''), DeleteFloatingIp ''f1'']\<rparr>)"
  by (simp add: vpc_eval stop_def busy_release_env_def demo_running_state_def
        attached_floating_ips_def)

end
